theory Spec2Isabelle
  imports Main "HOL-Library.Multiset"
begin

section \<open>Vectors and matrices of glm\<close>

text \<open>
  The renderer computes with \<^verbatim>\<open>glm::vec3\<close>, \<^verbatim>\<open>glm::vec4\<close> and \<^verbatim>\<open>glm::mat4\<close> over
  \<^verbatim>\<open>float\<close>. The scalar type is left open (\<open>'a\<close>): the definitions use only the
  operations the code writes (\<open>0\<close>, \<open>1\<close>, \<open>+\<close>, \<open>-\<close>, \<open>*\<close>, \<open><\<close>) and assume no law
  about them. Each theorem names the laws it needs by the sort of \<open>'a\<close>: none, a linear
  order for the comparisons (floats without NaN), or the laws of a ring where the
  statement is about exact arithmetic.

  A \<^verbatim>\<open>glm::mat4\<close> is stored by columns: \<^verbatim>\<open>m[i]\<close> is column \<open>i\<close>, and the sixteen
  arguments of its constructor fill column 0 first.
\<close>

datatype 'a vec3 = Vec3 (v3x: 'a) (v3y: 'a) (v3z: 'a)

datatype 'a vec4 = Vec4 (v4x: 'a) (v4y: 'a) (v4z: 'a) (v4w: 'a)

datatype 'a mat4 = Mat4 (col0: "'a vec4") (col1: "'a vec4") (col2: "'a vec4") (col3: "'a vec4")

text \<open>\<^verbatim>\<open>glm::vec3(v)\<close> of a \<^verbatim>\<open>vec4\<close> drops \<open>w\<close>; \<^verbatim>\<open>glm::vec4(v, w)\<close> appends it.\<close>

definition vec3_of :: "'a vec4 \<Rightarrow> 'a vec3" where
  "vec3_of v = Vec3 (v4x v) (v4y v) (v4z v)"

definition vec4_of :: "'a vec3 \<Rightarrow> 'a \<Rightarrow> 'a vec4" where
  "vec4_of v w = Vec4 (v3x v) (v3y v) (v3z v) w"

definition vec3_sub :: "'a::minus vec3 \<Rightarrow> 'a vec3 \<Rightarrow> 'a vec3" where
  "vec3_sub a b = Vec3 (v3x a - v3x b) (v3y a - v3y b) (v3z a - v3z b)"

definition dot :: "'a::{plus,times} vec3 \<Rightarrow> 'a vec3 \<Rightarrow> 'a" where
  "dot a b = v3x a * v3x b + v3y a * v3y b + v3z a * v3z b"

definition vec4_scale :: "'a::times vec4 \<Rightarrow> 'a \<Rightarrow> 'a vec4" where
  "vec4_scale v s = Vec4 (v4x v * s) (v4y v * s) (v4z v * s) (v4w v * s)"

definition vec4_add :: "'a::plus vec4 \<Rightarrow> 'a vec4 \<Rightarrow> 'a vec4" where
  "vec4_add a b = Vec4 (v4x a + v4x b) (v4y a + v4y b) (v4z a + v4z b) (v4w a + v4w b)"

text \<open>
  \<^verbatim>\<open>m * v\<close>: the columns of \<open>m\<close> weighted by the components of \<open>v\<close>;
  \<^verbatim>\<open>a * b\<close>: column \<open>i\<close> of the product is \<open>a\<close> applied to column \<open>i\<close> of \<open>b\<close>.
\<close>

definition mat4_mul_vec4 :: "'a::{plus,times} mat4 \<Rightarrow> 'a vec4 \<Rightarrow> 'a vec4" where
  "mat4_mul_vec4 m v =
     vec4_add (vec4_add (vec4_add (vec4_scale (col0 m) (v4x v)) (vec4_scale (col1 m) (v4y v)))
                        (vec4_scale (col2 m) (v4z v)))
              (vec4_scale (col3 m) (v4w v))"

definition mat4_mul :: "'a::{plus,times} mat4 \<Rightarrow> 'a mat4 \<Rightarrow> 'a mat4" where
  "mat4_mul a b =
     Mat4 (mat4_mul_vec4 a (col0 b)) (mat4_mul_vec4 a (col1 b))
          (mat4_mul_vec4 a (col2 b)) (mat4_mul_vec4 a (col3 b))"

definition mat4_identity :: "'a::{zero,one} mat4" where
  "mat4_identity = Mat4 (Vec4 1 0 0 0) (Vec4 0 1 0 0) (Vec4 0 0 1 0) (Vec4 0 0 0 1)"

text \<open>\<^verbatim>\<open>glm::translate(m, v)\<close> replaces column 3 by \<open>m[0]*v.x + m[1]*v.y + m[2]*v.z + m[3]\<close>;
  \<^verbatim>\<open>glm::scale(m, v)\<close> scales the first three columns.\<close>

definition translate :: "'a::{plus,times} mat4 \<Rightarrow> 'a vec3 \<Rightarrow> 'a mat4" where
  "translate m v =
     Mat4 (col0 m) (col1 m) (col2 m)
          (vec4_add (vec4_add (vec4_add (vec4_scale (col0 m) (v3x v)) (vec4_scale (col1 m) (v3y v)))
                              (vec4_scale (col2 m) (v3z v)))
                    (col3 m))"

definition scale :: "'a::times mat4 \<Rightarrow> 'a vec3 \<Rightarrow> 'a mat4" where
  "scale m v =
     Mat4 (vec4_scale (col0 m) (v3x v)) (vec4_scale (col1 m) (v3y v))
          (vec4_scale (col2 m) (v3z v)) (col3 m)"

section \<open>Materials, components and the scene\<close>

text \<open>
  Meshes, shader programs, textures, samplers and the names OpenGL hands out are
  objects of the graphics library: the model knows them by a handle.
\<close>

type_synonym handle = nat

datatype gl_enum =
    GL_VERTEX_SHADER | GL_FRAGMENT_SHADER
  | GL_CW
  | GL_TEXTURE_MIN_FILTER | GL_TEXTURE_MAG_FILTER | GL_TEXTURE_WRAP_S | GL_TEXTURE_WRAP_T
  | GL_LINEAR | GL_REPEAT | GL_CLAMP_TO_EDGE
  | GL_RGBA8 | GL_DEPTH_COMPONENT24
  | GL_FRAMEBUFFER | GL_COLOR_ATTACHMENT0 | GL_DEPTH_ATTACHMENT | GL_TEXTURE_2D
  | GL_TRIANGLES

text \<open>The four fields of \<^verbatim>\<open>PipelineState\<close> that \<^verbatim>\<open>initialize\<close> writes.\<close>

record pipeline_state =
  faceCulling_enabled :: bool
  faceCulling_frontFace :: gl_enum
  depthMask :: bool
  depthTesting_enabled :: bool

text \<open>
  The dynamic type of a material, as far as the renderer tells materials apart:
  \<^verbatim>\<open>dynamic_cast<DefaultMaterial*>\<close> succeeds on the first kind only.
\<close>

datatype material_kind = DefaultMaterial | TexturedMaterial | OtherMaterial

record 'a material =
  kind :: material_kind
  shader :: handle
  texture :: handle
  sampler :: handle
  pipelineState :: pipeline_state
  tint :: "'a vec4"
  transparent :: bool
  isSkybox :: bool

text \<open>
  A value handed to \<^verbatim>\<open>ShaderProgram::set\<close>. The light fields whose C++ type is
  declared outside this file (intensity, colour, decay, range, smoothing) are kept
  as such values: the renderer only passes them on.
\<close>

datatype 'a uval =
    UMat4 "'a mat4" | UVec4 "'a vec4" | UVec3 "'a vec3" | UFloat 'a | UInt int

record 'a directional_light =
  dl_direction :: "'a vec3"
  dl_intensity :: "'a uval"
  dl_color :: "'a uval"

record 'a spot_light =
  sl_worldPosition :: "'a vec3"
  sl_intensity :: "'a uval"
  sl_color :: "'a uval"
  sl_lightDecay :: "'a uval"

record 'a cone_light =
  cl_worldPosition :: "'a vec3"
  cl_worldDirection :: "'a vec3"
  cl_direction :: "'a vec3"
  cl_intensity :: "'a uval"
  cl_color :: "'a uval"
  cl_range :: "'a uval"
  cl_smoothing :: "'a uval"
  cl_lightDecay :: "'a uval"

text \<open>
  A camera, by what the renderer asks of it: \<^verbatim>\<open>getViewMatrix()\<close>,
  \<^verbatim>\<open>getProjectionMatrix(size)\<close> and the field \<^verbatim>\<open>orthoHeight\<close>.
\<close>

record 'a camera =
  getViewMatrix :: "'a mat4"
  getProjectionMatrix :: "int \<times> int \<Rightarrow> 'a mat4"
  orthoHeight :: 'a

datatype 'a component =
    is_Camera: CameraComponent "'a camera"
  | is_MeshRenderer: MeshRendererComponent handle "'a material"
  | is_DirectionalLight: DirectionalLight "'a directional_light"
  | is_SpotLight: SpotLight "'a spot_light"
  | is_ConeLight: ConeLight "'a cone_light"

text \<open>
  Components are objects that the renderer reaches through pointers and, for spot and
  cone lights, writes to: they live in a store, and an entity lists the addresses of
  the components it owns. \<open>getLocalToWorldMatrix\<close> is what the entity's method of this
  name returns in this frame.
\<close>

type_synonym addr = nat

type_synonym 'a store = "addr \<Rightarrow> 'a component option"

record 'a entity =
  getLocalToWorldMatrix :: "'a mat4"
  components :: "addr list"

definition has_kind :: "('a component \<Rightarrow> bool) \<Rightarrow> 'a store \<Rightarrow> addr \<Rightarrow> bool" where
  "has_kind isT h a = (case h a of None \<Rightarrow> False | Some c \<Rightarrow> isT c)"

text \<open>
  Modelled from the spec: \<^verbatim>\<open>Entity::getComponent<T>\<close> and
  \<^verbatim>\<open>Entity::getAllComponents<T>\<close> are declared outside this file. Section 6: each
  entity exposes "a lookup-by-capability-kind returning zero, one, or (for repeatable
  kinds) many component instances". The single lookup returns the first component of
  the kind in the entity's list, or null; the repeatable one returns all of them.
\<close>

definition getComponent :: "('a component \<Rightarrow> bool) \<Rightarrow> 'a store \<Rightarrow> 'a entity \<Rightarrow> addr option" where
  "getComponent isT h entity = find (has_kind isT h) (components entity)"

definition getAllComponents :: "('a component \<Rightarrow> bool) \<Rightarrow> 'a store \<Rightarrow> 'a entity \<Rightarrow> addr list" where
  "getAllComponents isT h entity = filter (has_kind isT h) (components entity)"

section \<open>The renderer's state and the calls it issues\<close>

record 'a RenderCommand =
  localToWorld :: "'a mat4"
  center :: "'a vec3"
  mesh :: handle
  material_of :: "'a material"

text \<open>
  The fields of \<^verbatim>\<open>ForwardRenderer\<close>. The two material pointers are tested for
  null, so they are options; the other pointers and OpenGL names are plain handles.
  The three light lists hold pointers to components, that is addresses of the store.
\<close>

record 'a renderer =
  windowSize :: "int \<times> int"
  areaLight :: "'a vec3"
  skySphere :: handle
  skyMaterial :: "'a material option"
  postprocessFrameBuffer :: handle
  postProcessVertexArray :: handle
  colorTarget :: handle
  depthTarget :: handle
  postprocessMaterial :: "'a material option"
  opaqueCommands :: "'a RenderCommand list"
  transparentCommands :: "'a RenderCommand list"
  directionalLights :: "addr list"
  spotLights :: "addr list"
  coneLights :: "addr list"

text \<open>
  Every call that leaves the renderer, to OpenGL or to a collaborator, in the order
  issued. A call that creates an object carries the handle of the object created.
\<close>

datatype 'a call =
    MeshSphere int int handle
  | NewShaderProgram handle
  | ShaderAttach handle string gl_enum
  | ShaderLink handle
  | LoadImage string bool handle
  | NewSampler handle
  | SamplerSet handle gl_enum gl_enum
  | NewMaterial material_kind
  | GenFramebuffers handle
  | BindFramebuffer gl_enum handle
  | EmptyTexture gl_enum "int \<times> int" handle
  | FramebufferTexture2D gl_enum gl_enum gl_enum handle int
  | GenVertexArrays handle
  | Viewport int int int int
  | ClearColor 'a 'a 'a 'a
  | ClearDepth 'a
  | ColorMask bool bool bool bool
  | DepthMask bool
  | Clear_color_depth
  | MaterialSetup "'a material"
  | SetUniform handle string "'a uval"
  | MeshDraw handle
  | BindVertexArray handle
  | DrawArrays gl_enum int int

section \<open>Per-frame render: traversal\<close>

text \<open>
  The camera pointer found by the traversal, with the entity it was found in: the
  owner that \<^verbatim>\<open>camera->getOwner()\<close> returns. The traversal never writes to a camera
  component, so the pointer is modelled by the component's value.
\<close>

type_synonym 'a camera_ptr = "'a camera \<times> 'a entity"

definition getCamera :: "'a store \<Rightarrow> 'a entity \<Rightarrow> 'a camera_ptr option" where
  "getCamera h entity =
     (case getComponent is_Camera h entity of
        None \<Rightarrow> None
      | Some a \<Rightarrow> (case h a of Some (CameraComponent c) \<Rightarrow> Some (c, entity) | _ \<Rightarrow> None))"

text \<open>Lines 135-149: the command of an entity that has a mesh renderer.\<close>

definition collect_mesh ::
  "'a store \<Rightarrow> 'a entity \<Rightarrow> 'a mat4 \<Rightarrow> 'a vec4 \<Rightarrow> 'a renderer \<Rightarrow> 'a renderer" where
  "collect_mesh h entity ltw position r =
     (case getComponent is_MeshRenderer h entity of
        None \<Rightarrow> r
      | Some a \<Rightarrow>
          (case h a of
             Some (MeshRendererComponent msh mat) \<Rightarrow>
               (let command = \<lparr>localToWorld = ltw, center = vec3_of position,
                                 mesh = msh, material_of = mat\<rparr>
                in if transparent mat
                   then r\<lparr>transparentCommands := transparentCommands r @ [command]\<rparr>
                   else r\<lparr>opaqueCommands := opaqueCommands r @ [command]\<rparr>)
           | _ \<Rightarrow> r))"

text \<open>Lines 151-153.\<close>

definition collect_directional :: "'a store \<Rightarrow> 'a entity \<Rightarrow> 'a renderer \<Rightarrow> 'a renderer" where
  "collect_directional h entity r =
     (case getComponent is_DirectionalLight h entity of
        None \<Rightarrow> r
      | Some dl \<Rightarrow> r\<lparr>directionalLights := directionalLights r @ [dl]\<rparr>)"

text \<open>Lines 155-159: the pointer is appended and the component written through it.\<close>

definition collect_spot ::
  "'a entity \<Rightarrow> 'a vec4 \<Rightarrow> 'a renderer \<times> 'a store \<Rightarrow> 'a renderer \<times> 'a store" where
  "collect_spot entity position s =
     (case s of (r, h) \<Rightarrow>
        (case getComponent is_SpotLight h entity of
           None \<Rightarrow> (r, h)
         | Some sl \<Rightarrow>
             (r\<lparr>spotLights := spotLights r @ [sl]\<rparr>,
              (case h sl of
                 Some (SpotLight l) \<Rightarrow>
                   h(sl \<mapsto> SpotLight (l\<lparr>sl_worldPosition := vec3_of position\<rparr>))
               | _ \<Rightarrow> h))))"

text \<open>Lines 161-166: the loop over the cone lights that \<^verbatim>\<open>getAllComponents\<close> returned.\<close>

fun collect_cones ::
  "'a::{zero,plus,times} mat4 \<Rightarrow> 'a vec4 \<Rightarrow> addr list \<Rightarrow> 'a renderer \<times> 'a store
     \<Rightarrow> 'a renderer \<times> 'a store" where
  "collect_cones ltw position [] s = s"
| "collect_cones ltw position (k # cl) s =
     (case s of (r, h) \<Rightarrow>
        collect_cones ltw position cl
          (r\<lparr>coneLights := coneLights r @ [k]\<rparr>,
           (case h k of
              Some (ConeLight l) \<Rightarrow>
                h(k \<mapsto> ConeLight (l\<lparr>cl_worldPosition := vec3_of position,
                                       cl_worldDirection :=
                                         vec3_of (mat4_mul_vec4 ltw (vec4_of (cl_direction l) 0))\<rparr>))
            | _ \<Rightarrow> h)))"

text \<open>The body of the loop over the entities, lines 127-167.\<close>

definition visit ::
  "'a::{zero,one,plus,times} entity \<Rightarrow> 'a camera_ptr option \<times> 'a renderer \<times> 'a store
     \<Rightarrow> 'a camera_ptr option \<times> 'a renderer \<times> 'a store" where
  "visit entity s =
     (case s of (camera, r, h) \<Rightarrow>
        (let camera' = (case camera of None \<Rightarrow> getCamera h entity | Some c \<Rightarrow> Some c);
             ltw = getLocalToWorldMatrix entity;
             position = mat4_mul_vec4 ltw (Vec4 0 0 0 1);
             r1 = collect_mesh h entity ltw position r;
             r2 = collect_directional h entity r1;
             (r3, h3) = collect_spot entity position (r2, h);
             (r4, h4) = collect_cones ltw position (getAllComponents is_ConeLight h3 entity) (r3, h3)
         in (camera', r4, h4)))"

fun traverse ::
  "'a::{zero,one,plus,times} entity list \<Rightarrow> 'a camera_ptr option \<times> 'a renderer \<times> 'a store
     \<Rightarrow> 'a camera_ptr option \<times> 'a renderer \<times> 'a store" where
  "traverse [] s = s"
| "traverse (entity # world) s = traverse world (visit entity s)"

text \<open>Lines 121-125: the five lists are emptied before the loop.\<close>

definition clear_lists :: "'a renderer \<Rightarrow> 'a renderer" where
  "clear_lists r =
     r\<lparr>opaqueCommands := [], transparentCommands := [], directionalLights := [],
       spotLights := [], coneLights := []\<rparr>"

section \<open>Per-frame render: the transparency sort\<close>

text \<open>The lambda of lines 184-188: true when \<open>first\<close> is to be drawn before \<open>second\<close>.\<close>

definition projected :: "'a::{plus,minus,times} vec3 \<Rightarrow> 'a vec3 \<Rightarrow> 'a RenderCommand \<Rightarrow> 'a" where
  "projected cameraForward cameraCenter c = dot (vec3_sub (center c) cameraCenter) cameraForward"

definition drawn_before ::
  "'a::{plus,minus,times,ord} vec3 \<Rightarrow> 'a vec3 \<Rightarrow> 'a RenderCommand \<Rightarrow> 'a RenderCommand \<Rightarrow> bool" where
  "drawn_before cameraForward cameraCenter first second =
     (dot (vec3_sub (center second) cameraCenter) cameraForward
        < dot (vec3_sub (center first) cameraCenter) cameraForward)"

text \<open>
  \<^verbatim>\<open>std::sort\<close> belongs to the C++ library. Its contract is that the range is
  permuted so that no later element compares before an earlier one; the order of
  equivalent elements is left open. The model is the insertion sort that the library
  runs on a short range: the elements are taken from left to right, and each is put
  before the first element of the sorted part that it compares before, so that
  equivalent elements stay in their order (\<open>std_sort_stable\<close> below). It meets the
  contract for a strict weak order (\<open>std_sort_mset\<close> and \<open>std_sort_ordered\<close>).
\<close>

fun insert_by :: "('c \<Rightarrow> 'c \<Rightarrow> bool) \<Rightarrow> 'c \<Rightarrow> 'c list \<Rightarrow> 'c list" where
  "insert_by cmp x [] = [x]"
| "insert_by cmp x (y # ys) =
     (if cmp x y then x # y # ys else y # insert_by cmp x ys)"

definition std_sort :: "('c \<Rightarrow> 'c \<Rightarrow> bool) \<Rightarrow> 'c list \<Rightarrow> 'c list" where
  "std_sort cmp xs = foldl (\<lambda>sorted x. insert_by cmp x sorted) [] xs"

section \<open>Per-frame render: binding and drawing\<close>

text \<open>\<^verbatim>\<open>ss << i\<close> for an \<^verbatim>\<open>int i\<close> that counts up from 0: its decimal digits.\<close>

fun string_of_nat :: "nat \<Rightarrow> string" where
  "string_of_nat n =
     (if n < 10 then [''0123456789'' ! n]
      else string_of_nat (n div 10) @ [''0123456789'' ! (n mod 10)])"

declare string_of_nat.simps [simp del]

text \<open>
  \<^verbatim>\<open>(GLint) v.size()\<close>: the size is cut to 32 bits and read as a signed number. The
  loops below count with an \<^verbatim>\<open>int i\<close>; the model counts with a natural number, which
  is the same as long as a list has fewer than \<open>2 ^ 31\<close> elements.
\<close>

definition GLint_of_size :: "nat \<Rightarrow> int" where
  "GLint_of_size n =
     (let m = int n mod 2 ^ 32 in if m < 2 ^ 31 then m else m - 2 ^ 32)"

text \<open>
  The three loops over the light lists, lines 226-259 (and again 309-342: the two
  copies are the same text). Each loop reads the components through the pointers
  collected by the traversal; a pointer of another kind cannot be in a list, and the
  model issues no call for one.
\<close>

definition bind_directionalLights :: "'a store \<Rightarrow> handle \<Rightarrow> addr list \<Rightarrow> 'a call list" where
  "bind_directionalLights h sh ls =
     concat (map (\<lambda>i.
       (let header = ''directionalLights['' @ string_of_nat i @ ''].'' in
        case h (ls ! i) of
          Some (DirectionalLight l) \<Rightarrow>
            [SetUniform sh (header @ ''direction'') (UVec3 (dl_direction l)),
             SetUniform sh (header @ ''intensity'') (dl_intensity l),
             SetUniform sh (header @ ''color'') (dl_color l)]
        | _ \<Rightarrow> [])) [0..<length ls])"

definition bind_spotLights :: "'a store \<Rightarrow> handle \<Rightarrow> addr list \<Rightarrow> 'a call list" where
  "bind_spotLights h sh ls =
     concat (map (\<lambda>i.
       (let header = ''spotLights['' @ string_of_nat i @ ''].'' in
        case h (ls ! i) of
          Some (SpotLight l) \<Rightarrow>
            [SetUniform sh (header @ ''position'') (UVec3 (sl_worldPosition l)),
             SetUniform sh (header @ ''intensity'') (sl_intensity l),
             SetUniform sh (header @ ''color'') (sl_color l),
             SetUniform sh (header @ ''decay'') (sl_lightDecay l)]
        | _ \<Rightarrow> [])) [0..<length ls])"

definition bind_coneLights :: "'a store \<Rightarrow> handle \<Rightarrow> addr list \<Rightarrow> 'a call list" where
  "bind_coneLights h sh ls =
     concat (map (\<lambda>i.
       (let header = ''coneLights['' @ string_of_nat i @ ''].'' in
        case h (ls ! i) of
          Some (ConeLight l) \<Rightarrow>
            [SetUniform sh (header @ ''position'') (UVec3 (cl_worldPosition l)),
             SetUniform sh (header @ ''intensity'') (cl_intensity l),
             SetUniform sh (header @ ''color'') (cl_color l),
             SetUniform sh (header @ ''direction'') (UVec3 (cl_worldDirection l)),
             SetUniform sh (header @ ''range'') (cl_range l),
             SetUniform sh (header @ ''smoothing'') (cl_smoothing l),
             SetUniform sh (header @ ''decay'') (cl_lightDecay l)]
        | _ \<Rightarrow> [])) [0..<length ls])"

definition bind_lights :: "'a store \<Rightarrow> 'a renderer \<Rightarrow> handle \<Rightarrow> 'a call list" where
  "bind_lights h r sh =
     [SetUniform sh ''directionalLightCount'' (UInt (GLint_of_size (length (directionalLights r))))]
     @ bind_directionalLights h sh (directionalLights r)
     @ [SetUniform sh ''spotLightsCount'' (UInt (GLint_of_size (length (spotLights r))))]
     @ bind_spotLights h sh (spotLights r)
     @ [SetUniform sh ''coneLightsCount'' (UInt (GLint_of_size (length (coneLights r))))]
     @ bind_coneLights h sh (coneLights r)"

text \<open>The body of the loop over the opaque commands, lines 216-264.\<close>

definition draw_opaque ::
  "'a::{plus,times} store \<Rightarrow> 'a renderer \<Rightarrow> 'a mat4 \<Rightarrow> 'a vec3 \<Rightarrow> 'a RenderCommand \<Rightarrow> 'a call list" where
  "draw_opaque h r VP cameraCenter k =
     (let sh = shader (material_of k) in
      [MaterialSetup (material_of k)]
      @ (if kind (material_of k) = DefaultMaterial
         then [SetUniform sh ''transform'' (UMat4 (localToWorld k)),
               SetUniform sh ''Camera'' (UMat4 VP),
               SetUniform sh ''cameraPosition'' (UVec3 cameraCenter),
               SetUniform sh ''areaLight'' (UVec3 (areaLight r))]
              @ bind_lights h r sh
         else [SetUniform sh ''transform'' (UMat4 (mat4_mul VP (localToWorld k)))])
      @ [MeshDraw (mesh k)])"

text \<open>The body of the loop over the transparent commands, lines 299-347.\<close>

definition draw_transparent ::
  "'a::{plus,times} store \<Rightarrow> 'a renderer \<Rightarrow> 'a mat4 \<Rightarrow> 'a vec3 \<Rightarrow> 'a RenderCommand \<Rightarrow> 'a call list" where
  "draw_transparent h r VP cameraCenter k =
     (let sh = shader (material_of k) in
      [MaterialSetup (material_of k)]
      @ (if kind (material_of k) = DefaultMaterial
         then [SetUniform sh ''transform'' (UMat4 (localToWorld k)),
               SetUniform sh ''Camera'' (UMat4 VP),
               SetUniform sh ''areaLight'' (UVec3 (areaLight r)),
               SetUniform sh ''cameraPosition'' (UVec3 cameraCenter)]
              @ bind_lights h r sh
         else [SetUniform sh ''transform'' (UMat4 (mat4_mul VP (localToWorld k)))])
      @ [MeshDraw (mesh k)])"

text \<open>The sky, lines 267-296. The sixteen constructor arguments fill the columns in turn.\<close>

definition alwaysBehindTransform :: "'a::{zero,one} mat4" where
  "alwaysBehindTransform =
     Mat4 (Vec4 1 0 0 0)
          (Vec4 0 1 0 0)
          (Vec4 0 0 0 0)
          (Vec4 0 0 1 1)"

definition sky_camera :: "'a::{zero,one,plus,times} mat4 \<Rightarrow> 'a mat4" where
  "sky_camera VP = mat4_mul alwaysBehindTransform VP"

definition draw_sky ::
  "'a::{zero,one,plus,times} renderer \<Rightarrow> 'a mat4 \<Rightarrow> 'a vec3 \<Rightarrow> 'a camera \<Rightarrow> 'a call list" where
  "draw_sky r VP cameraCenter camera =
     (case skyMaterial r of
        None \<Rightarrow> []
      | Some sky \<Rightarrow>
          (let M = translate mat4_identity cameraCenter;
               s = orthoHeight camera * (1 + 1);
               skyboxScaleMatrix = scale mat4_identity (Vec3 s s s)
           in [MaterialSetup sky,
               SetUniform (shader sky) ''areaLight'' (UVec3 (areaLight r)),
               SetUniform (shader sky) ''transform'' (UMat4 (mat4_mul M skyboxScaleMatrix)),
               SetUniform (shader sky) ''Camera'' (UMat4 (sky_camera VP)),
               MeshDraw (skySphere r)]))"

text \<open>The post-processing pass, lines 350-357.\<close>

definition draw_postprocess :: "'a renderer \<Rightarrow> 'a call list" where
  "draw_postprocess r =
     (case postprocessMaterial r of
        None \<Rightarrow> []
      | Some pp \<Rightarrow>
          [BindFramebuffer GL_FRAMEBUFFER 0,
           MaterialSetup pp,
           BindVertexArray (postProcessVertexArray r),
           DrawArrays GL_TRIANGLES 0 3])"

text \<open>
  Lines 170-357, for the camera found (\<open>cameraForward4\<close> and \<open>cameraCenter4\<close> are the
  source's \<^verbatim>\<open>cameraForward_\<close> and \<^verbatim>\<open>cameraCenter_\<close>). The result is the renderer with
  its transparent list sorted, and the calls issued.
\<close>

definition render_frame ::
  "'a::{zero,one,uminus,plus,minus,times,ord} camera_ptr \<Rightarrow> 'a store \<Rightarrow> 'a renderer
     \<Rightarrow> 'a renderer \<times> 'a call list" where
  "render_frame camera h r =
     (case camera of (cam, owner) \<Rightarrow>
        (let camTransform = getLocalToWorldMatrix owner;
             cameraForward4 = mat4_mul_vec4 camTransform (Vec4 0 0 (- 1) 0);
             cameraCenter4 = mat4_mul_vec4 camTransform (Vec4 0 0 0 1);
             cameraForward = Vec3 (v4x cameraForward4) (v4y cameraForward4) (v4z cameraForward4);
             cameraCenter = Vec3 (v4x cameraCenter4) (v4y cameraCenter4) (v4z cameraCenter4);
             r' = r\<lparr>transparentCommands :=
                      std_sort (drawn_before cameraForward cameraCenter) (transparentCommands r)\<rparr>;
             VP = mat4_mul (getProjectionMatrix cam (windowSize r')) (getViewMatrix cam)
         in (r',
             [Viewport 0 0 (fst (windowSize r')) (snd (windowSize r')),
              ClearColor 0 0 0 0,
              ClearDepth 1,
              ColorMask True True True True,
              DepthMask True]
             @ (case postprocessMaterial r' of
                  None \<Rightarrow> []
                | Some pp \<Rightarrow> [BindFramebuffer GL_FRAMEBUFFER (postprocessFrameBuffer r')])
             @ [Clear_color_depth]
             @ concat (map (draw_opaque h r' VP cameraCenter) (opaqueCommands r'))
             @ draw_sky r' VP cameraCenter cam
             @ concat (map (draw_transparent h r' VP cameraCenter) (transparentCommands r'))
             @ draw_postprocess r')))"

text \<open>
  \<^verbatim>\<open>ForwardRenderer::render\<close>: the world is the list of entities in the order the
  loop visits them. The result is the renderer, the store of components and the
  calls issued.
\<close>

definition render ::
  "'a::{zero,one,uminus,plus,minus,times,ord} entity list \<Rightarrow> 'a store \<Rightarrow> 'a renderer
     \<Rightarrow> 'a renderer \<times> 'a store \<times> 'a call list" where
  "render world h r =
     (case traverse world (None, clear_lists r, h) of
        (None, r1, h1) \<Rightarrow> (r1, h1, [])
      | (Some camera, r1, h1) \<Rightarrow>
          (case render_frame camera h1 r1 of (r2, calls) \<Rightarrow> (r2, h1, calls)))"

section \<open>Initialization\<close>

text \<open>
  The configuration is a JSON object: a map from keys to values. Of a value the
  renderer asks whether it is there (\<^verbatim>\<open>contains\<close>) and reads it as a string or as a
  \<^verbatim>\<open>glm::vec3\<close> (\<^verbatim>\<open>value\<close>, with a default for a missing key). \<^verbatim>\<open>value\<close> throws when
  the value found has another JSON type; the exception leaves \<^verbatim>\<open>initialize\<close>, and the
  model then returns the error alone.
\<close>

datatype 'a json = JString string | JVec3 "'a vec3" | JOther

type_synonym 'a config = "string \<Rightarrow> 'a json option"

datatype init_error = json_type_error

definition contains :: "'a config \<Rightarrow> string \<Rightarrow> bool" where
  "contains config key = (case config key of None \<Rightarrow> False | Some v \<Rightarrow> True)"

definition value_string :: "'a config \<Rightarrow> string \<Rightarrow> string \<Rightarrow> init_error + string" where
  "value_string config key dflt =
     (case config key of
        None \<Rightarrow> Inr dflt
      | Some (JString s) \<Rightarrow> Inr s
      | Some _ \<Rightarrow> Inl json_type_error)"

text \<open>
  Modelled from the spec: the conversion of a JSON value to \<^verbatim>\<open>glm::vec3\<close> is in
  \<^verbatim>\<open>deserialize-utils.hpp\<close>, outside this file. Section 6: \<^verbatim>\<open>areaLight\<close> is a
  "3-component color, default white".
\<close>

definition value_vec3 :: "'a config \<Rightarrow> string \<Rightarrow> 'a vec3 \<Rightarrow> init_error + 'a vec3" where
  "value_vec3 config key dflt =
     (case config key of
        None \<Rightarrow> Inr dflt
      | Some (JVec3 v) \<Rightarrow> Inr v
      | Some _ \<Rightarrow> Inl json_type_error)"

text \<open>
  The sky, lines 15-53. \<open>new_PipelineState\<close> is the value of \<^verbatim>\<open>PipelineState{}\<close> and
  \<open>new_Material\<close> gives the fields of a freshly constructed material of a kind: both
  constructors are declared outside this file. The kind of the object is the class
  named after \<^verbatim>\<open>new\<close>. \<open>n\<close> is the first handle not yet in
  use; the objects created take the handles from \<open>n\<close> on, in the order of creation.
\<close>

definition init_sky ::
  "(material_kind \<Rightarrow> 'a::one material) \<Rightarrow> pipeline_state \<Rightarrow> string \<Rightarrow> handle \<Rightarrow> 'a renderer
     \<Rightarrow> 'a renderer \<times> 'a call list" where
  "init_sky new_Material new_PipelineState skyTextureFile n r =
     (let sphere = n; skyShader = n + 1; skyTexture = n + 2; skySampler = n + 3;
          skyPipelineState =
            new_PipelineState\<lparr>faceCulling_enabled := True, faceCulling_frontFace := GL_CW,
                             depthMask := True, depthTesting_enabled := True\<rparr>
      in (r\<lparr>skySphere := sphere,
            skyMaterial := Some ((new_Material DefaultMaterial)
              \<lparr>kind := DefaultMaterial,
               shader := skyShader, texture := skyTexture, sampler := skySampler,
               pipelineState := skyPipelineState, tint := Vec4 1 1 1 1,
               transparent := False, isSkybox := True\<rparr>)\<rparr>,
          [MeshSphere 16 16 sphere,
           NewShaderProgram skyShader,
           ShaderAttach skyShader ''assets/shaders/default.vert'' GL_VERTEX_SHADER,
           ShaderAttach skyShader ''assets/shaders/default.frag'' GL_FRAGMENT_SHADER,
           ShaderLink skyShader,
           LoadImage skyTextureFile False skyTexture,
           NewSampler skySampler,
           SamplerSet skySampler GL_TEXTURE_MIN_FILTER GL_LINEAR,
           SamplerSet skySampler GL_TEXTURE_MAG_FILTER GL_LINEAR,
           SamplerSet skySampler GL_TEXTURE_WRAP_S GL_REPEAT,
           SamplerSet skySampler GL_TEXTURE_WRAP_T GL_CLAMP_TO_EDGE,
           NewMaterial DefaultMaterial]))"

text \<open>Post-processing, lines 58-93.\<close>

definition init_postprocess ::
  "(material_kind \<Rightarrow> 'a material) \<Rightarrow> string \<Rightarrow> handle \<Rightarrow> int \<times> int \<Rightarrow> 'a renderer
     \<Rightarrow> 'a renderer \<times> 'a call list" where
  "init_postprocess new_Material shaderFile n wsize r =
     (let frameBuffer = n; color = n + 1; depth = n + 2; vertexArray = n + 3;
          postprocessSampler = n + 4; postprocessShader = n + 5;
          m = new_Material TexturedMaterial
      in (r\<lparr>postprocessFrameBuffer := frameBuffer,
            postProcessVertexArray := vertexArray,
            colorTarget := color,
            depthTarget := depth,
            postprocessMaterial := Some (m
              \<lparr>kind := TexturedMaterial,
               shader := postprocessShader, texture := color, sampler := postprocessSampler,
               pipelineState := (pipelineState m)\<lparr>depthMask := False\<rparr>\<rparr>)\<rparr>,
          [GenFramebuffers frameBuffer,
           BindFramebuffer GL_FRAMEBUFFER frameBuffer,
           EmptyTexture GL_RGBA8 wsize color,
           FramebufferTexture2D GL_FRAMEBUFFER GL_COLOR_ATTACHMENT0 GL_TEXTURE_2D color 0,
           EmptyTexture GL_DEPTH_COMPONENT24 wsize depth,
           FramebufferTexture2D GL_FRAMEBUFFER GL_DEPTH_ATTACHMENT GL_TEXTURE_2D depth 0,
           BindFramebuffer GL_FRAMEBUFFER 0,
           GenVertexArrays vertexArray,
           NewSampler postprocessSampler,
           SamplerSet postprocessSampler GL_TEXTURE_MIN_FILTER GL_LINEAR,
           SamplerSet postprocessSampler GL_TEXTURE_MAG_FILTER GL_LINEAR,
           SamplerSet postprocessSampler GL_TEXTURE_WRAP_S GL_CLAMP_TO_EDGE,
           SamplerSet postprocessSampler GL_TEXTURE_WRAP_T GL_CLAMP_TO_EDGE,
           NewShaderProgram postprocessShader,
           ShaderAttach postprocessShader ''assets/shaders/fullscreen.vert'' GL_VERTEX_SHADER,
           ShaderAttach postprocessShader shaderFile GL_FRAGMENT_SHADER,
           ShaderLink postprocessShader,
           NewMaterial TexturedMaterial]))"

text \<open>
  \<^verbatim>\<open>ForwardRenderer::initialize\<close>, lines 9-95. The sky, when configured, takes four
  handles, so post-processing starts four handles later.
\<close>

definition initialize ::
  "(material_kind \<Rightarrow> 'a::one material) \<Rightarrow> pipeline_state \<Rightarrow> handle \<Rightarrow> int \<times> int \<Rightarrow> 'a config
     \<Rightarrow> 'a renderer \<Rightarrow> init_error + 'a renderer \<times> 'a call list" where
  "initialize new_Material new_PipelineState n wsize config r =
     (case value_vec3 config ''areaLight'' (Vec3 1 1 1) of
        Inl e \<Rightarrow> Inl e
      | Inr light \<Rightarrow>
          (let r1 = r\<lparr>windowSize := wsize, areaLight := light\<rparr> in
           case (if contains config ''sky''
                 then (case value_string config ''sky'' [] of
                         Inl e \<Rightarrow> Inl e
                       | Inr skyTextureFile \<Rightarrow>
                           Inr (init_sky new_Material new_PipelineState skyTextureFile n r1, n + 4))
                 else Inr ((r1, []), n)) of
             Inl e \<Rightarrow> Inl e
           | Inr ((r2, calls2), n2) \<Rightarrow>
               (if contains config ''postprocess''
                then (case value_string config ''postprocess'' [] of
                        Inl e \<Rightarrow> Inl e
                      | Inr shaderFile \<Rightarrow>
                          (case init_postprocess new_Material shaderFile n2 wsize r2 of
                             (r3, calls3) \<Rightarrow> Inr (r3, calls2 @ calls3)))
                else Inr (r2, calls2))))"

section \<open>What a frame collects and what it may change\<close>

text \<open>
  The notions the statements below are written in, following section 4.3 of the
  specification. The command of an entity is built from its first mesh renderer; the
  commands collected are those of the entities in the order visited.
\<close>

definition command_of :: "'a::{zero,one,plus,times} store \<Rightarrow> 'a entity \<Rightarrow> 'a RenderCommand list" where
  "command_of h entity =
     (case getComponent is_MeshRenderer h entity of
        None \<Rightarrow> []
      | Some a \<Rightarrow>
          (case h a of
             Some (MeshRendererComponent msh mat) \<Rightarrow>
               [\<lparr>localToWorld = getLocalToWorldMatrix entity,
                 center = vec3_of (mat4_mul_vec4 (getLocalToWorldMatrix entity) (Vec4 0 0 0 1)),
                 mesh = msh, material_of = mat\<rparr>]
           | _ \<Rightarrow> []))"

definition collected_commands ::
  "'a::{zero,one,plus,times} store \<Rightarrow> 'a entity list \<Rightarrow> 'a RenderCommand list" where
  "collected_commands h world = concat (map (command_of h) world)"

definition is_transparent :: "'a RenderCommand \<Rightarrow> bool" where
  "is_transparent c = transparent (material_of c)"

text \<open>The pointer a single lookup returns, as the list of what it adds to a light list.\<close>

definition pointer_list :: "addr option \<Rightarrow> addr list" where
  "pointer_list p = (case p of None \<Rightarrow> [] | Some a \<Rightarrow> [a])"

text \<open>The camera of a frame is the first one met.\<close>

fun first_camera :: "'a store \<Rightarrow> 'a entity list \<Rightarrow> 'a camera_ptr option" where
  "first_camera h [] = None"
| "first_camera h (entity # world) =
     (case getCamera h entity of None \<Rightarrow> first_camera h world | Some c \<Rightarrow> Some c)"

text \<open>
  The camera's forward direction and position, as lines 174-179 compute them from the
  world transform of the camera's owner.
\<close>

definition camera_forward :: "'a::{zero,one,uminus,plus,times} entity \<Rightarrow> 'a vec3" where
  "camera_forward owner = vec3_of (mat4_mul_vec4 (getLocalToWorldMatrix owner) (Vec4 0 0 (- 1) 0))"

definition camera_center :: "'a::{zero,one,plus,times} entity \<Rightarrow> 'a vec3" where
  "camera_center owner = vec3_of (mat4_mul_vec4 (getLocalToWorldMatrix owner) (Vec4 0 0 0 1))"

text \<open>
  Two components are the same but for the cache when they differ at most in the
  cached world position of a spot light, or the cached world position and direction
  of a cone light; two stores hold the same scene when this is so at every address.
\<close>

definition same_but_cache :: "'a component \<Rightarrow> 'a component \<Rightarrow> bool" where
  "same_but_cache c c' =
     (case c of
        SpotLight l \<Rightarrow>
          (case c' of SpotLight l' \<Rightarrow> l'\<lparr>sl_worldPosition := sl_worldPosition l\<rparr> = l | _ \<Rightarrow> False)
      | ConeLight l \<Rightarrow>
          (case c' of
             ConeLight l' \<Rightarrow>
               l'\<lparr>cl_worldPosition := cl_worldPosition l,
                  cl_worldDirection := cl_worldDirection l\<rparr> = l
           | _ \<Rightarrow> False)
      | _ \<Rightarrow> c' = c)"

definition same_scene :: "'a store \<Rightarrow> 'a store \<Rightarrow> bool" where
  "same_scene h h' = (\<forall>a. rel_option same_but_cache (h a) (h' a))"

text \<open>A test on components that does not look at the cached fields.\<close>

definition kind_test :: "('a component \<Rightarrow> bool) \<Rightarrow> bool" where
  "kind_test isT = (\<forall>c c'. same_but_cache c c' \<longrightarrow> isT c' = isT c)"

text \<open>The three parts of the result of \<open>render\<close>.\<close>

definition renderer_after ::
  "'a::{zero,one,uminus,plus,minus,times,ord} entity list \<Rightarrow> 'a store \<Rightarrow> 'a renderer \<Rightarrow> 'a renderer" where
  "renderer_after world h r = fst (render world h r)"

definition store_after ::
  "'a::{zero,one,uminus,plus,minus,times,ord} entity list \<Rightarrow> 'a store \<Rightarrow> 'a renderer \<Rightarrow> 'a store" where
  "store_after world h r = fst (snd (render world h r))"

definition calls_of ::
  "'a::{zero,one,uminus,plus,minus,times,ord} entity list \<Rightarrow> 'a store \<Rightarrow> 'a renderer \<Rightarrow> 'a call list" where
  "calls_of world h r = snd (snd (render world h r))"

text \<open>
  The part of \<^verbatim>\<open>localToWorld * vec4(v, 0)\<close> that the first three columns give: the
  rotation and scale of the transform, without its translation.
\<close>

definition linear_part :: "'a::{plus,times} mat4 \<Rightarrow> 'a vec3 \<Rightarrow> 'a vec3" where
  "linear_part m v =
     vec3_of (vec4_add (vec4_add (vec4_scale (col0 m) (v3x v)) (vec4_scale (col1 m) (v3y v)))
                       (vec4_scale (col2 m) (v3z v)))"

section \<open>What the calls of a frame and of initialization amount to\<close>

text \<open>The calls that draw: a mesh's \<^verbatim>\<open>draw()\<close> and \<^verbatim>\<open>glDrawArrays\<close>.\<close>

definition is_draw :: "'a call \<Rightarrow> bool" where
  "is_draw c = (case c of MeshDraw m \<Rightarrow> True | DrawArrays mode first n \<Rightarrow> True | _ \<Rightarrow> False)"

text \<open>The name path \<^verbatim>\<open><arrayName>[i].<field>\<close> of section 4.6 of the specification.\<close>

definition indexed :: "string \<Rightarrow> nat \<Rightarrow> string \<Rightarrow> string" where
  "indexed array i field = array @ ''['' @ string_of_nat i @ ''].'' @ field"

text \<open>
  What the three light loops hand to a shader: for each light that a list points to,
  its fields under their indexed names.
\<close>

definition directional_uniforms :: "'a store \<Rightarrow> addr list \<Rightarrow> (string \<times> 'a uval) set" where
  "directional_uniforms h ls =
     (\<Union>i\<in>{..<length ls}.
        case h (ls ! i) of
          Some (DirectionalLight l) \<Rightarrow>
            {(indexed ''directionalLights'' i ''direction'', UVec3 (dl_direction l)),
             (indexed ''directionalLights'' i ''intensity'', dl_intensity l),
             (indexed ''directionalLights'' i ''color'', dl_color l)}
        | _ \<Rightarrow> {})"

definition spot_uniforms :: "'a store \<Rightarrow> addr list \<Rightarrow> (string \<times> 'a uval) set" where
  "spot_uniforms h ls =
     (\<Union>i\<in>{..<length ls}.
        case h (ls ! i) of
          Some (SpotLight l) \<Rightarrow>
            {(indexed ''spotLights'' i ''position'', UVec3 (sl_worldPosition l)),
             (indexed ''spotLights'' i ''intensity'', sl_intensity l),
             (indexed ''spotLights'' i ''color'', sl_color l),
             (indexed ''spotLights'' i ''decay'', sl_lightDecay l)}
        | _ \<Rightarrow> {})"

definition cone_uniforms :: "'a store \<Rightarrow> addr list \<Rightarrow> (string \<times> 'a uval) set" where
  "cone_uniforms h ls =
     (\<Union>i\<in>{..<length ls}.
        case h (ls ! i) of
          Some (ConeLight l) \<Rightarrow>
            {(indexed ''coneLights'' i ''position'', UVec3 (cl_worldPosition l)),
             (indexed ''coneLights'' i ''intensity'', cl_intensity l),
             (indexed ''coneLights'' i ''color'', cl_color l),
             (indexed ''coneLights'' i ''direction'', UVec3 (cl_worldDirection l)),
             (indexed ''coneLights'' i ''range'', cl_range l),
             (indexed ''coneLights'' i ''smoothing'', cl_smoothing l),
             (indexed ''coneLights'' i ''decay'', cl_lightDecay l)}
        | _ \<Rightarrow> {})"

text \<open>With the three counts, all that the light loops hand to a shader.\<close>

definition light_uniforms :: "'a store \<Rightarrow> 'a renderer \<Rightarrow> (string \<times> 'a uval) set" where
  "light_uniforms h r =
     {(''directionalLightCount'', UInt (GLint_of_size (length (directionalLights r)))),
      (''spotLightsCount'', UInt (GLint_of_size (length (spotLights r)))),
      (''coneLightsCount'', UInt (GLint_of_size (length (coneLights r))))}
     \<union> directional_uniforms h (directionalLights r)
     \<union> spot_uniforms h (spotLights r)
     \<union> cone_uniforms h (coneLights r)"

text \<open>The values a shader program receives in a list of calls, by uniform name.\<close>

definition uniforms :: "'a call list \<Rightarrow> handle \<Rightarrow> (string \<times> 'a uval) set" where
  "uniforms cs sh = {(name, v). SetUniform sh name v \<in> set cs}"

text \<open>The calls of \<open>initialize\<close> that create an object.\<close>

definition is_creation :: "'a call \<Rightarrow> bool" where
  "is_creation c =
     (case c of
        MeshSphere a b m \<Rightarrow> True
      | NewShaderProgram s \<Rightarrow> True
      | LoadImage file mipmap t \<Rightarrow> True
      | NewSampler s \<Rightarrow> True
      | NewMaterial k \<Rightarrow> True
      | GenFramebuffers f \<Rightarrow> True
      | EmptyTexture format wsize t \<Rightarrow> True
      | GenVertexArrays v \<Rightarrow> True
      | _ \<Rightarrow> False)"

text \<open>
  The attachments that a list of calls makes, as (framebuffer, attachment point,
  texture): \<^verbatim>\<open>glFramebufferTexture2D\<close> attaches to the framebuffer bound last.
\<close>

fun attachments :: "handle \<Rightarrow> 'a call list \<Rightarrow> (handle \<times> gl_enum \<times> handle) list" where
  "attachments bound [] = []"
| "attachments bound (BindFramebuffer target f # cs) = attachments f cs"
| "attachments bound (FramebufferTexture2D target point textarget t level # cs) =
     (bound, point, t) # attachments bound cs"
| "attachments bound (c # cs) = attachments bound cs"

section \<open>A sample scene\<close>

text \<open>
  A scene over the integers, on which the statements below are instantiated: a camera
  at the origin, an opaque mesh with two directional lights, a transparent mesh with
  two spot lights, and a transparent mesh of another material kind with two cone
  lights; the renderer has a sky and a post-processing pass.
\<close>

definition scene_material :: "int material" where
  "scene_material =
     \<lparr>kind = DefaultMaterial, shader = 7, texture = 8, sampler = 9,
      pipelineState = \<lparr>faceCulling_enabled = False, faceCulling_frontFace = GL_CW,
                       depthMask = True, depthTesting_enabled = True\<rparr>,
      tint = Vec4 1 1 1 1, transparent = False, isSkybox = False\<rparr>"

definition scene_camera :: "int camera" where
  "scene_camera =
     \<lparr>getViewMatrix = mat4_identity,
      getProjectionMatrix = (\<lambda>wsize. Mat4 (Vec4 1 0 0 0) (Vec4 0 1 0 0) (Vec4 0 0 1 0) (Vec4 0 0 1 1)),
      orthoHeight = 1\<rparr>"

definition scene_spot :: "int spot_light" where
  "scene_spot =
     \<lparr>sl_worldPosition = Vec3 9 9 9, sl_intensity = UFloat 1,
      sl_color = UVec3 (Vec3 1 1 1), sl_lightDecay = UFloat 1\<rparr>"

definition scene_cone :: "int vec3 \<Rightarrow> int cone_light" where
  "scene_cone d =
     \<lparr>cl_worldPosition = Vec3 9 9 9, cl_worldDirection = Vec3 9 9 9, cl_direction = d,
      cl_intensity = UFloat 1, cl_color = UVec3 (Vec3 1 1 1), cl_range = UFloat 1,
      cl_smoothing = UFloat 1, cl_lightDecay = UFloat 1\<rparr>"

definition scene_directional :: "int directional_light" where
  "scene_directional =
     \<lparr>dl_direction = Vec3 0 (- 1) 0, dl_intensity = UFloat 1, dl_color = UVec3 (Vec3 1 1 1)\<rparr>"

definition scene_store :: "int store" where
  "scene_store =
     [1 \<mapsto> CameraComponent scene_camera,
      2 \<mapsto> MeshRendererComponent 20 scene_material,
      3 \<mapsto> MeshRendererComponent 30 (scene_material\<lparr>transparent := True\<rparr>),
      4 \<mapsto> MeshRendererComponent 40 (scene_material\<lparr>transparent := True, kind := OtherMaterial\<rparr>),
      5 \<mapsto> DirectionalLight scene_directional,
      6 \<mapsto> SpotLight scene_spot,
      7 \<mapsto> ConeLight (scene_cone (Vec3 1 0 0)),
      8 \<mapsto> ConeLight (scene_cone (Vec3 0 1 0)),
      9 \<mapsto> SpotLight scene_spot,
      10 \<mapsto> DirectionalLight scene_directional]"

definition at :: "int \<Rightarrow> int \<Rightarrow> int \<Rightarrow> int mat4" where
  "at x y z = Mat4 (Vec4 1 0 0 0) (Vec4 0 1 0 0) (Vec4 0 0 1 0) (Vec4 x y z 1)"

definition scene_world :: "int entity list" where
  "scene_world =
     [\<lparr>getLocalToWorldMatrix = at 0 0 0, components = [1]\<rparr>,
      \<lparr>getLocalToWorldMatrix = at 1 2 (- 3), components = [2, 5, 10]\<rparr>,
      \<lparr>getLocalToWorldMatrix = at 0 0 (- 2), components = [3, 6, 9]\<rparr>,
      \<lparr>getLocalToWorldMatrix = at 0 0 (- 5), components = [4, 7, 8]\<rparr>]"

definition scene_renderer :: "int renderer" where
  "scene_renderer =
     \<lparr>windowSize = (800, 600), areaLight = Vec3 1 1 1, skySphere = 50,
      skyMaterial = Some (scene_material\<lparr>shader := 51, isSkybox := True\<rparr>),
      postprocessFrameBuffer = 60, postProcessVertexArray = 61, colorTarget = 62,
      depthTarget = 63,
      postprocessMaterial = Some (scene_material\<lparr>kind := TexturedMaterial, shader := 64\<rparr>),
      opaqueCommands = [], transparentCommands = [],
      directionalLights = [], spotLights = [], coneLights = []\<rparr>"

text \<open>The sample scene without the entity that carries the camera.\<close>

definition scene_without_camera :: "int entity list" where
  "scene_without_camera = tl scene_world"

text \<open>
  Two commands of the sample scene: that of the opaque mesh, of the default material,
  and that of the transparent mesh of another material.
\<close>

definition scene_lit_command :: "int RenderCommand" where
  "scene_lit_command =
     \<lparr>localToWorld = at 1 2 (- 3), center = Vec3 1 2 (- 3), mesh = 20,
      material_of = scene_material\<rparr>"

definition scene_unlit_command :: "int RenderCommand" where
  "scene_unlit_command =
     \<lparr>localToWorld = at 0 0 (- 5), center = Vec3 0 0 (- 5), mesh = 40,
      material_of = scene_material\<lparr>transparent := True, kind := OtherMaterial\<rparr>\<rparr>"

text \<open>Two configurations, and what the sample scene's constructors give.\<close>

definition config_postprocess :: "int config" where
  "config_postprocess = [''postprocess'' \<mapsto> JString ''assets/shaders/vignette.frag'']"

definition config_sky :: "int config" where
  "config_sky = [''sky'' \<mapsto> JString ''assets/textures/sky.jpg'']"

definition scene_new_Material :: "material_kind \<Rightarrow> int material" where
  "scene_new_Material k = scene_material\<lparr>kind := k\<rparr>"

section \<open>The traversal keeps the scene\<close>

lemma same_but_cache_refl: "same_but_cache c c"
  by (cases c) (simp_all add: same_but_cache_def)

lemma same_but_cache_trans:
  "same_but_cache a b \<Longrightarrow> same_but_cache b c \<Longrightarrow> same_but_cache a c"
  apply (cases a; cases b; cases c; simp add: same_but_cache_def)
   apply (metis spot_light.surjective spot_light.update_convs(1))
  apply (metis (no_types, lifting) cone_light.surjective cone_light.update_convs(1) cone_light.update_convs(2))
  done

lemma rel_same_refl: "rel_option same_but_cache x x"
  by (cases x) (simp_all add: same_but_cache_refl)

lemma same_scene_refl: "same_scene h h"
  by (simp add: same_scene_def rel_same_refl)

lemma same_scene_trans: "same_scene h1 h2 \<Longrightarrow> same_scene h2 h3 \<Longrightarrow> same_scene h1 h3"
  unfolding same_scene_def
proof
  fix a
  assume 1: "\<forall>a. rel_option same_but_cache (h1 a) (h2 a)" and 2: "\<forall>a. rel_option same_but_cache (h2 a) (h3 a)"
  from 1 have a: "rel_option same_but_cache (h1 a) (h2 a)" by blast
  from 2 have b: "rel_option same_but_cache (h2 a) (h3 a)" by blast
  show "rel_option same_but_cache (h1 a) (h3 a)"
    using a b by (cases "h1 a"; cases "h2 a"; cases "h3 a") (auto intro: same_but_cache_trans)
qed

lemma same_scene_spot:
  "h a = Some (SpotLight l) \<Longrightarrow> same_scene h (h(a \<mapsto> SpotLight (l\<lparr>sl_worldPosition := p\<rparr>)))"
  by (simp add: same_scene_def same_but_cache_def rel_same_refl)

lemma same_scene_cone:
  "h a = Some (ConeLight l) \<Longrightarrow>
   same_scene h (h(a \<mapsto> ConeLight (l\<lparr>cl_worldPosition := p, cl_worldDirection := d\<rparr>)))"
  by (simp add: same_scene_def same_but_cache_def rel_same_refl)

lemma same_but_cache_kind:
  "same_but_cache c c' \<Longrightarrow>
   is_Camera c' = is_Camera c \<and> is_MeshRenderer c' = is_MeshRenderer c \<and>
   is_DirectionalLight c' = is_DirectionalLight c \<and> is_SpotLight c' = is_SpotLight c \<and>
   is_ConeLight c' = is_ConeLight c"
  by (cases c; cases c') (simp_all add: same_but_cache_def)

lemma kind_tests:
  "kind_test is_Camera" "kind_test is_MeshRenderer" "kind_test is_DirectionalLight"
  "kind_test is_SpotLight" "kind_test is_ConeLight"
  by (simp_all add: kind_test_def same_but_cache_kind)

lemma same_scene_has_kind:
  assumes "same_scene h h'" and "kind_test isT"
  shows "has_kind isT h' = has_kind isT h"
proof
  fix a
  from assms(1) have "rel_option same_but_cache (h a) (h' a)" by (simp add: same_scene_def)
  then show "has_kind isT h' a = has_kind isT h a"
    using assms(2) by (cases "h a"; cases "h' a") (auto simp: has_kind_def kind_test_def)
qed

lemma same_scene_getComponent:
  "same_scene h h' \<Longrightarrow> kind_test isT \<Longrightarrow> getComponent isT h' e = getComponent isT h e"
  by (simp add: getComponent_def same_scene_has_kind)

lemma same_scene_getAllComponents:
  "same_scene h h' \<Longrightarrow> kind_test isT \<Longrightarrow> getAllComponents isT h' e = getAllComponents isT h e"
  by (simp add: getAllComponents_def same_scene_has_kind)

lemma same_scene_fixed:
  assumes "same_scene h h'" and "h a = Some c" and "\<not> is_SpotLight c" and "\<not> is_ConeLight c"
  shows "h' a = Some c"
proof -
  from assms(1) have "rel_option same_but_cache (h a) (h' a)" by (simp add: same_scene_def)
  with assms(2-4) show ?thesis
    by (cases "h' a"; cases c) (auto simp: same_but_cache_def)
qed

lemma same_scene_fixed_back:
  assumes "same_scene h h'" and "h' a = Some c" and "\<not> is_SpotLight c" and "\<not> is_ConeLight c"
  shows "h a = Some c"
proof -
  from assms(1) have "rel_option same_but_cache (h a) (h' a)" by (simp add: same_scene_def)
  with assms(2-4) show ?thesis
    by (cases "h a"; cases c) (auto simp: same_but_cache_def split: component.splits)
qed

lemma collect_spot_scene: "collect_spot e pos (r, h) = (r', h') \<Longrightarrow> same_scene h h'"
  by (auto simp: collect_spot_def same_scene_refl same_scene_spot split: option.splits component.splits)

lemma collect_cones_scene: "collect_cones ltw pos ks (r, h) = (r', h') \<Longrightarrow> same_scene h h'"
proof (induction ks arbitrary: r h)
  case Nil
  then show ?case by (simp add: same_scene_refl)
next
  case (Cons k ks)
  show ?case
  proof (cases "h k")
    case None
    with Cons show ?thesis by simp
  next
    case (Some c)
    show ?thesis
    proof (cases c)
      case (ConeLight l)
      let ?h1 = "h(k \<mapsto> ConeLight (l\<lparr>cl_worldPosition := vec3_of pos,
                 cl_worldDirection := vec3_of (mat4_mul_vec4 ltw (vec4_of (cl_direction l) 0))\<rparr>))"
      from Cons.prems Some ConeLight
      have "collect_cones ltw pos ks (r\<lparr>coneLights := coneLights r @ [k]\<rparr>, ?h1) = (r', h')" by simp
      then have "same_scene ?h1 h'" by (rule Cons.IH)
      moreover have "same_scene h ?h1" using Some ConeLight by (simp add: same_scene_cone)
      ultimately show ?thesis by (rule same_scene_trans[rotated])
    qed (use Cons Some in simp_all)
  qed
qed

lemma visit_scene: "visit e (c, r, h) = (c', r', h') \<Longrightarrow> same_scene h h'"
  apply (simp add: visit_def Let_def split: prod.splits)
  apply (blast intro: same_scene_trans collect_spot_scene collect_cones_scene)
  done

lemma traverse_scene: "traverse w (c, r, h) = (c', r', h') \<Longrightarrow> same_scene h h'"
proof (induction w arbitrary: c r h)
  case Nil
  then show ?case by (simp add: same_scene_refl)
next
  case (Cons e w)
  obtain c1 r1 h1 where v: "visit e (c, r, h) = (c1, r1, h1)" by (cases "visit e (c, r, h)")
  with Cons.prems have "traverse w (c1, r1, h1) = (c', r', h')" by simp
  then have "same_scene h1 h'" by (rule Cons.IH)
  with visit_scene[OF v] show ?case by (rule same_scene_trans)
qed

section \<open>The lists the traversal builds\<close>

lemma same_scene_mesh_case:
  assumes "same_scene h h'"
  shows "(case h' a of Some (MeshRendererComponent m t) \<Rightarrow> f m t | _ \<Rightarrow> g)
       = (case h a of Some (MeshRendererComponent m t) \<Rightarrow> f m t | _ \<Rightarrow> g)"
proof -
  from assms have "rel_option same_but_cache (h a) (h' a)" by (simp add: same_scene_def)
  then show ?thesis
    by (cases "h a"; cases "h' a") (auto simp: same_but_cache_def split: component.splits)
qed

lemma same_scene_camera_case:
  assumes "same_scene h h'"
  shows "(case h' a of Some (CameraComponent c) \<Rightarrow> f c | _ \<Rightarrow> g)
       = (case h a of Some (CameraComponent c) \<Rightarrow> f c | _ \<Rightarrow> g)"
proof -
  from assms have "rel_option same_but_cache (h a) (h' a)" by (simp add: same_scene_def)
  then show ?thesis
    by (cases "h a"; cases "h' a") (auto simp: same_but_cache_def split: component.splits)
qed

lemma same_scene_command_of: "same_scene h h' \<Longrightarrow> command_of h' e = command_of h e"
  by (simp add: command_of_def same_scene_getComponent kind_tests same_scene_mesh_case
           cong: option.case_cong)

lemma same_scene_getCamera: "same_scene h h' \<Longrightarrow> getCamera h' e = getCamera h e"
  by (simp add: getCamera_def same_scene_getComponent kind_tests same_scene_camera_case
           cong: option.case_cong)

lemma collect_mesh_lists:
  "opaqueCommands (collect_mesh h e (getLocalToWorldMatrix e)
       (mat4_mul_vec4 (getLocalToWorldMatrix e) (Vec4 0 0 0 1)) r)
     = opaqueCommands r @ filter (\<lambda>c. \<not> is_transparent c) (command_of h e)"
  "transparentCommands (collect_mesh h e (getLocalToWorldMatrix e)
       (mat4_mul_vec4 (getLocalToWorldMatrix e) (Vec4 0 0 0 1)) r)
     = transparentCommands r @ filter is_transparent (command_of h e)"
  "directionalLights (collect_mesh h e m p r) = directionalLights r"
  "spotLights (collect_mesh h e m p r) = spotLights r"
  "coneLights (collect_mesh h e m p r) = coneLights r"
  "clear_lists (collect_mesh h e m p r) = clear_lists r"
  by (simp_all add: collect_mesh_def command_of_def is_transparent_def clear_lists_def Let_def
        split: option.splits component.splits)

lemma collect_directional_lists:
  "opaqueCommands (collect_directional h e r) = opaqueCommands r"
  "transparentCommands (collect_directional h e r) = transparentCommands r"
  "directionalLights (collect_directional h e r)
     = directionalLights r @ pointer_list (getComponent is_DirectionalLight h e)"
  "spotLights (collect_directional h e r) = spotLights r"
  "coneLights (collect_directional h e r) = coneLights r"
  "clear_lists (collect_directional h e r) = clear_lists r"
  by (simp_all add: collect_directional_def pointer_list_def clear_lists_def split: option.splits)

lemma collect_spot_lists:
  "opaqueCommands (fst (collect_spot e p (r, h))) = opaqueCommands r"
  "transparentCommands (fst (collect_spot e p (r, h))) = transparentCommands r"
  "directionalLights (fst (collect_spot e p (r, h))) = directionalLights r"
  "spotLights (fst (collect_spot e p (r, h)))
     = spotLights r @ pointer_list (getComponent is_SpotLight h e)"
  "coneLights (fst (collect_spot e p (r, h))) = coneLights r"
  "clear_lists (fst (collect_spot e p (r, h))) = clear_lists r"
  by (simp_all add: collect_spot_def pointer_list_def clear_lists_def split: option.splits)

lemma collect_cones_lists:
  "opaqueCommands (fst (collect_cones m p ks (r, h))) = opaqueCommands r \<and>
   transparentCommands (fst (collect_cones m p ks (r, h))) = transparentCommands r \<and>
   directionalLights (fst (collect_cones m p ks (r, h))) = directionalLights r \<and>
   spotLights (fst (collect_cones m p ks (r, h))) = spotLights r \<and>
   coneLights (fst (collect_cones m p ks (r, h))) = coneLights r @ ks \<and>
   clear_lists (fst (collect_cones m p ks (r, h))) = clear_lists r"
proof (induction ks arbitrary: r h)
  case Nil
  show ?case by simp
next
  case (Cons k ks)
  show ?case
    by (simp add: Cons.IH) (simp add: clear_lists_def)
qed

lemma visit_lists:
  assumes "visit e (cam, r, h) = (cam', r', h')"
  shows "opaqueCommands r' = opaqueCommands r @ filter (\<lambda>c. \<not> is_transparent c) (command_of h e)"
    and "transparentCommands r' = transparentCommands r @ filter is_transparent (command_of h e)"
    and "directionalLights r'
           = directionalLights r @ pointer_list (getComponent is_DirectionalLight h e)"
    and "spotLights r' = spotLights r @ pointer_list (getComponent is_SpotLight h e)"
    and "coneLights r' = coneLights r @ getAllComponents is_ConeLight h e"
    and "clear_lists r' = clear_lists r"
    and "cam' = (case cam of None \<Rightarrow> getCamera h e | Some c \<Rightarrow> Some c)"
proof -
  let ?m = "getLocalToWorldMatrix e"
  let ?p = "mat4_mul_vec4 ?m (Vec4 0 0 0 1)"
  let ?r2 = "collect_directional h e (collect_mesh h e ?m ?p r)"
  obtain r3 h3 where s: "collect_spot e ?p (?r2, h) = (r3, h3)"
    by (cases "collect_spot e ?p (?r2, h)")
  have r3: "r3 = fst (collect_spot e ?p (?r2, h))" using s by simp
  have h3: "same_scene h h3" using s by (rule collect_spot_scene)
  have r': "r' = fst (collect_cones ?m ?p (getAllComponents is_ConeLight h e) (r3, h3))"
    using assms s h3 by (simp add: visit_def Let_def same_scene_getAllComponents kind_tests)
  note l = collect_cones_lists[of ?m ?p "getAllComponents is_ConeLight h e" r3 h3]
  show "opaqueCommands r' = opaqueCommands r @ filter (\<lambda>c. \<not> is_transparent c) (command_of h e)"
    using l by (simp add: r' r3 collect_spot_lists collect_directional_lists collect_mesh_lists)
  show "transparentCommands r' = transparentCommands r @ filter is_transparent (command_of h e)"
    using l by (simp add: r' r3 collect_spot_lists collect_directional_lists collect_mesh_lists)
  show "directionalLights r'
           = directionalLights r @ pointer_list (getComponent is_DirectionalLight h e)"
    using l by (simp add: r' r3 collect_spot_lists collect_directional_lists collect_mesh_lists)
  show "spotLights r' = spotLights r @ pointer_list (getComponent is_SpotLight h e)"
    using l by (simp add: r' r3 collect_spot_lists collect_directional_lists collect_mesh_lists)
  show "coneLights r' = coneLights r @ getAllComponents is_ConeLight h e"
    using l by (simp add: r' r3 collect_spot_lists collect_directional_lists collect_mesh_lists)
  show "clear_lists r' = clear_lists r"
    using l by (simp add: r' r3 collect_spot_lists collect_directional_lists collect_mesh_lists)
  show "cam' = (case cam of None \<Rightarrow> getCamera h e | Some c \<Rightarrow> Some c)"
    using assms by (simp add: visit_def Let_def split: prod.splits)
qed

lemma traverse_lists:
  assumes "traverse world (cam, r, h) = (cam', r', h')" and "same_scene h0 h"
  shows "opaqueCommands r'
           = opaqueCommands r @ filter (\<lambda>c. \<not> is_transparent c) (collected_commands h0 world) \<and>
         transparentCommands r'
           = transparentCommands r @ filter is_transparent (collected_commands h0 world) \<and>
         directionalLights r'
           = directionalLights r
             @ concat (map (\<lambda>e. pointer_list (getComponent is_DirectionalLight h0 e)) world) \<and>
         spotLights r'
           = spotLights r @ concat (map (\<lambda>e. pointer_list (getComponent is_SpotLight h0 e)) world) \<and>
         coneLights r' = coneLights r @ concat (map (getAllComponents is_ConeLight h0) world) \<and>
         clear_lists r' = clear_lists r \<and>
         cam' = (case cam of None \<Rightarrow> first_camera h0 world | Some c \<Rightarrow> Some c)"
  using assms
proof (induction world arbitrary: cam r h)
  case Nil
  then show ?case by (simp add: collected_commands_def split: option.splits)
next
  case (Cons e world)
  obtain c1 r1 h1 where v: "visit e (cam, r, h) = (c1, r1, h1)" by (cases "visit e (cam, r, h)")
  with Cons.prems have t: "traverse world (c1, r1, h1) = (cam', r', h')" by simp
  have "same_scene h h1" using v by (rule visit_scene)
  with Cons.prems(2) have s1: "same_scene h0 h1" by (rule same_scene_trans)
  note ih = Cons.IH[OF t s1]
  note vl = visit_lists[OF v]
  have eqs: "command_of h e = command_of h0 e"
    "getComponent is_DirectionalLight h e = getComponent is_DirectionalLight h0 e"
    "getComponent is_SpotLight h e = getComponent is_SpotLight h0 e"
    "getAllComponents is_ConeLight h e = getAllComponents is_ConeLight h0 e"
    "getCamera h e = getCamera h0 e"
    using Cons.prems(2)
    by (simp_all add: same_scene_command_of same_scene_getComponent same_scene_getAllComponents
          same_scene_getCamera kind_tests)
  show ?case
    using ih by (simp add: vl eqs collected_commands_def split: option.splits)
qed

section \<open>The components the traversal writes\<close>

lemma getComponent_member: "getComponent isT h e = Some a \<Longrightarrow> a \<in> set (components e) \<and> has_kind isT h a"
  by (auto simp: getComponent_def find_Some_iff)

lemma collect_cones_outside:
  "a \<notin> set ks \<Longrightarrow> snd (collect_cones m p ks (r, h)) a = h a"
  by (induction ks arbitrary: r h) (auto split: option.splits component.splits)

lemma collect_cones_inside:
  "distinct ks \<Longrightarrow> k \<in> set ks \<Longrightarrow> h k = Some (ConeLight l) \<Longrightarrow>
   snd (collect_cones m p ks (r, h)) k =
     Some (ConeLight (l\<lparr>cl_worldPosition := vec3_of p,
        cl_worldDirection := vec3_of (mat4_mul_vec4 m (vec4_of (cl_direction l) 0))\<rparr>))"
proof (induction ks arbitrary: r h)
  case Nil
  then show ?case by simp
next
  case (Cons k' ks)
  show ?case
  proof (cases "k = k'")
    case True
    with Cons.prems have "k \<notin> set ks" by simp
    then show ?thesis using True Cons.prems(3) by (simp add: collect_cones_outside)
  next
    case False
    with Cons.prems have "k \<in> set ks" "distinct ks" by simp_all
    then show ?thesis using False Cons.prems(3)
      by (auto simp: Cons.IH split: option.splits component.splits)
  qed
qed

lemma collect_spot_outside:
  "a \<notin> set (components e) \<Longrightarrow> snd (collect_spot e p (r, h)) a = h a"
  by (auto simp: collect_spot_def dest: getComponent_member split: option.splits component.splits)

lemma collect_spot_other:
  "getComponent is_SpotLight h e \<noteq> Some a \<Longrightarrow> snd (collect_spot e p (r, h)) a = h a"
  by (auto simp: collect_spot_def split: option.splits component.splits)

lemma collect_spot_inside:
  "getComponent is_SpotLight h e = Some a \<Longrightarrow>
   \<exists>l. h a = Some (SpotLight l) \<and>
       snd (collect_spot e p (r, h)) a = Some (SpotLight (l\<lparr>sl_worldPosition := vec3_of p\<rparr>))"
  by (auto simp: collect_spot_def has_kind_def dest!: getComponent_member
        split: option.splits component.splits)

lemma visit_snd:
  "snd (snd (visit e (c, r, h))) =
     snd (collect_cones (getLocalToWorldMatrix e) (mat4_mul_vec4 (getLocalToWorldMatrix e) (Vec4 0 0 0 1))
            (getAllComponents is_ConeLight h e)
            (collect_spot e (mat4_mul_vec4 (getLocalToWorldMatrix e) (Vec4 0 0 0 1))
               (collect_directional h e (collect_mesh h e (getLocalToWorldMatrix e)
                   (mat4_mul_vec4 (getLocalToWorldMatrix e) (Vec4 0 0 0 1)) r), h)))"
proof -
  let ?p = "mat4_mul_vec4 (getLocalToWorldMatrix e) (Vec4 0 0 0 1)"
  let ?r2 = "collect_directional h e (collect_mesh h e (getLocalToWorldMatrix e) ?p r)"
  obtain r3 h3 where s: "collect_spot e ?p (?r2, h) = (r3, h3)"
    by (cases "collect_spot e ?p (?r2, h)")
  have "same_scene h h3" using s by (rule collect_spot_scene)
  then show ?thesis
    using s by (simp add: visit_def Let_def same_scene_getAllComponents kind_tests split: prod.splits)
qed

lemma getAllComponents_subset: "set (getAllComponents isT h e) \<subseteq> set (components e)"
  by (auto simp: getAllComponents_def)

lemma visit_outside:
  assumes "a \<notin> set (components e)"
  shows "snd (snd (visit e (c, r, h))) a = h a"
proof -
  let ?p = "mat4_mul_vec4 (getLocalToWorldMatrix e) (Vec4 0 0 0 1)"
  let ?r2 = "collect_directional h e (collect_mesh h e (getLocalToWorldMatrix e) ?p r)"
  obtain r3 h3 where s: "collect_spot e ?p (?r2, h) = (r3, h3)"
    by (cases "collect_spot e ?p (?r2, h)")
  have "a \<notin> set (getAllComponents is_ConeLight h e)"
    using assms getAllComponents_subset by blast
  then have "snd (snd (visit e (c, r, h))) a = h3 a"
    by (simp add: visit_snd s collect_cones_outside)
  also have "h3 a = h a"
    using collect_spot_outside[OF assms, of ?p ?r2 h] s by simp
  finally show ?thesis .
qed

lemma visit_spot:
  assumes "getComponent is_SpotLight h e = Some a"
  shows "\<exists>l. h a = Some (SpotLight l) \<and>
           snd (snd (visit e (c, r, h))) a =
             Some (SpotLight (l\<lparr>sl_worldPosition :=
                vec3_of (mat4_mul_vec4 (getLocalToWorldMatrix e) (Vec4 0 0 0 1))\<rparr>))"
proof -
  let ?p = "mat4_mul_vec4 (getLocalToWorldMatrix e) (Vec4 0 0 0 1)"
  let ?r2 = "collect_directional h e (collect_mesh h e (getLocalToWorldMatrix e) ?p r)"
  obtain r3 h3 where s: "collect_spot e ?p (?r2, h) = (r3, h3)"
    by (cases "collect_spot e ?p (?r2, h)")
  from collect_spot_inside[OF assms, of ?p ?r2] s
  obtain l where l: "h a = Some (SpotLight l)"
    "h3 a = Some (SpotLight (l\<lparr>sl_worldPosition := vec3_of ?p\<rparr>))" by auto
  have "\<not> has_kind is_ConeLight h a" using l by (simp add: has_kind_def)
  then have "a \<notin> set (getAllComponents is_ConeLight h e)" by (simp add: getAllComponents_def)
  then have "snd (snd (visit e (c, r, h))) a = h3 a"
    by (simp add: visit_snd s collect_cones_outside)
  with l show ?thesis by simp
qed

lemma visit_cone:
  assumes "distinct (components e)" and "a \<in> set (getAllComponents is_ConeLight h e)"
  shows "\<exists>l. h a = Some (ConeLight l) \<and>
           snd (snd (visit e (c, r, h))) a =
             Some (ConeLight (l\<lparr>cl_worldPosition :=
                  vec3_of (mat4_mul_vec4 (getLocalToWorldMatrix e) (Vec4 0 0 0 1)),
                cl_worldDirection :=
                  vec3_of (mat4_mul_vec4 (getLocalToWorldMatrix e) (vec4_of (cl_direction l) 0))\<rparr>))"
proof -
  let ?p = "mat4_mul_vec4 (getLocalToWorldMatrix e) (Vec4 0 0 0 1)"
  let ?r2 = "collect_directional h e (collect_mesh h e (getLocalToWorldMatrix e) ?p r)"
  obtain r3 h3 where s: "collect_spot e ?p (?r2, h) = (r3, h3)"
    by (cases "collect_spot e ?p (?r2, h)")
  from assms(2) have "has_kind is_ConeLight h a" by (simp add: getAllComponents_def)
  then obtain l where l: "h a = Some (ConeLight l)"
    by (auto simp: has_kind_def is_ConeLight_def split: option.splits)
  have "getComponent is_SpotLight h e \<noteq> Some a"
    using l by (auto simp: has_kind_def dest: getComponent_member)
  from collect_spot_other[OF this, of ?p ?r2] s have h3: "h3 a = Some (ConeLight l)"
    using l by simp
  have d: "distinct (getAllComponents is_ConeLight h e)"
    using assms(1) by (simp add: getAllComponents_def)
  have "snd (snd (visit e (c, r, h))) a =
     snd (collect_cones (getLocalToWorldMatrix e) ?p (getAllComponents is_ConeLight h e) (r3, h3)) a"
    by (simp add: visit_snd s)
  also have "\<dots> = Some (ConeLight (l\<lparr>cl_worldPosition := vec3_of ?p,
        cl_worldDirection :=
          vec3_of (mat4_mul_vec4 (getLocalToWorldMatrix e) (vec4_of (cl_direction l) 0))\<rparr>))"
    using d assms(2) h3 by (rule collect_cones_inside)
  finally show ?thesis using l by simp
qed

lemma traverse_outside:
  "a \<notin> set (concat (map components world)) \<Longrightarrow> snd (snd (traverse world (c, r, h))) a = h a"
proof (induction world arbitrary: c r h)
  case Nil
  then show ?case by simp
next
  case (Cons e world)
  obtain c1 r1 h1 where v: "visit e (c, r, h) = (c1, r1, h1)" by (cases "visit e (c, r, h)")
  from Cons.prems have "a \<notin> set (components e)" "a \<notin> set (concat (map components world))"
    by simp_all
  then show ?case
    using Cons.IH[of c1 r1 h1] visit_outside[of a e c r h] v by simp
qed

lemma traverse_written:
  assumes "distinct (concat (map components world))"
    and "e \<in> set world" and "a \<in> set (components e)"
  shows "\<exists>c1 r1 h1. same_scene h h1 \<and>
           snd (snd (traverse world (c, r, h))) a = snd (snd (visit e (c1, r1, h1))) a \<and> h1 a = h a"
  using assms
proof (induction world arbitrary: c r h)
  case Nil
  then show ?case by simp
next
  case (Cons e' world)
  obtain c1 r1 h1 where v: "visit e' (c, r, h) = (c1, r1, h1)" by (cases "visit e' (c, r, h)")
  show ?case
  proof (cases "e = e'")
    case True
    with Cons.prems have "a \<notin> set (concat (map components world))" by auto
    then have "snd (snd (traverse world (c1, r1, h1))) a = h1 a" by (rule traverse_outside)
    then have "snd (snd (traverse (e' # world) (c, r, h))) a = snd (snd (visit e (c, r, h))) a"
      using v True by simp
    then show ?thesis using same_scene_refl by blast
  next
    case False
    with Cons.prems have in_w: "e \<in> set world" and d: "distinct (concat (map components world))"
      by simp_all
    from in_w Cons.prems(3) have "a \<in> set (concat (map components world))" by auto
    with Cons.prems(1) have "a \<notin> set (components e')" by auto
    then have h1a: "h1 a = h a" using visit_outside[of a e' c r h] v by simp
    from Cons.IH[OF d in_w Cons.prems(3), of h1 c1 r1]
    obtain c2 r2 h2 where 2: "same_scene h1 h2"
      "snd (snd (traverse world (c1, r1, h1))) a = snd (snd (visit e (c2, r2, h2))) a" "h2 a = h1 a"
      by blast
    have "same_scene h h2" using visit_scene[OF v] 2(1) by (rule same_scene_trans)
    then show ?thesis using 2 h1a v by auto
  qed
qed

lemma traverse_spot:
  assumes "distinct (concat (map components world))"
    and "e \<in> set world" and "getComponent is_SpotLight h e = Some a"
  shows "\<exists>l. h a = Some (SpotLight l) \<and>
           snd (snd (traverse world (c, r, h))) a =
             Some (SpotLight (l\<lparr>sl_worldPosition :=
                vec3_of (mat4_mul_vec4 (getLocalToWorldMatrix e) (Vec4 0 0 0 1))\<rparr>))"
proof -
  have a: "a \<in> set (components e)" using assms(3) by (simp add: getComponent_member)
  from traverse_written[OF assms(1,2) a, where h=h and c=c and r=r]
  obtain c1 r1 h1 where 1: "same_scene h h1"
    "snd (snd (traverse world (c, r, h))) a = snd (snd (visit e (c1, r1, h1))) a" "h1 a = h a"
    by blast
  have "getComponent is_SpotLight h1 e = Some a"
    using 1(1) assms(3) by (simp add: same_scene_getComponent kind_tests)
  from visit_spot[OF this, of c1 r1] 1 show ?thesis by simp
qed

lemma traverse_cone:
  assumes "distinct (concat (map components world))"
    and "e \<in> set world" and "a \<in> set (getAllComponents is_ConeLight h e)"
  shows "\<exists>l. h a = Some (ConeLight l) \<and>
           snd (snd (traverse world (c, r, h))) a =
             Some (ConeLight (l\<lparr>cl_worldPosition :=
                  vec3_of (mat4_mul_vec4 (getLocalToWorldMatrix e) (Vec4 0 0 0 1)),
                cl_worldDirection :=
                  vec3_of (mat4_mul_vec4 (getLocalToWorldMatrix e) (vec4_of (cl_direction l) 0))\<rparr>))"
proof -
  have a: "a \<in> set (components e)" using assms(3) getAllComponents_subset by blast
  from traverse_written[OF assms(1,2) a, where h=h and c=c and r=r]
  obtain c1 r1 h1 where 1: "same_scene h h1"
    "snd (snd (traverse world (c, r, h))) a = snd (snd (visit e (c1, r1, h1))) a" "h1 a = h a"
    by blast
  have 2: "a \<in> set (getAllComponents is_ConeLight h1 e)"
    using 1(1) assms(3) by (simp add: same_scene_getAllComponents kind_tests)
  have "distinct (components e)"
    using assms(1,2) by (induction world) auto
  from visit_cone[OF this 2, of c1 r1] 1 show ?thesis by simp
qed

section \<open>The result of render\<close>

lemma render_store:
  "store_after world h r = snd (snd (traverse world (None, clear_lists r, h)))"
  by (simp add: store_after_def render_def split: prod.splits option.splits)

lemma render_scene: "same_scene h (store_after world h r)"
proof -
  obtain c1 r1 h1 where t: "traverse world (None, clear_lists r, h) = (c1, r1, h1)"
    by (cases "traverse world (None, clear_lists r, h)")
  from traverse_scene[OF t] show ?thesis by (simp add: render_store t)
qed

lemma render_frame_renderer:
  "fst (render_frame (cam, owner) h r) =
     r\<lparr>transparentCommands :=
         std_sort (drawn_before (camera_forward owner) (camera_center owner)) (transparentCommands r)\<rparr>"
  by (simp add: render_frame_def Let_def camera_forward_def camera_center_def vec3_of_def)

lemma clear_lists_fields:
  "opaqueCommands (clear_lists r) = []" "transparentCommands (clear_lists r) = []"
  "directionalLights (clear_lists r) = []" "spotLights (clear_lists r) = []"
  "coneLights (clear_lists r) = []" "clear_lists (clear_lists r) = clear_lists r"
  by (simp_all add: clear_lists_def)

lemma render_lists:
  shows "opaqueCommands (renderer_after world h r)
           = filter (\<lambda>c. \<not> is_transparent c) (collected_commands h world)"
    and "transparentCommands (renderer_after world h r)
           = (case first_camera h world of
                None \<Rightarrow> filter is_transparent (collected_commands h world)
              | Some (cam, owner) \<Rightarrow>
                  std_sort (drawn_before (camera_forward owner) (camera_center owner))
                    (filter is_transparent (collected_commands h world)))"
    and "directionalLights (renderer_after world h r)
           = concat (map (\<lambda>e. pointer_list (getComponent is_DirectionalLight h e)) world)"
    and "spotLights (renderer_after world h r)
           = concat (map (\<lambda>e. pointer_list (getComponent is_SpotLight h e)) world)"
    and "coneLights (renderer_after world h r)
           = concat (map (getAllComponents is_ConeLight h) world)"
    and "clear_lists (renderer_after world h r) = clear_lists r"
proof -
  obtain c1 r1 h1 where t: "traverse world (None, clear_lists r, h) = (c1, r1, h1)"
    by (cases "traverse world (None, clear_lists r, h)")
  note l = traverse_lists[OF t same_scene_refl]
  have c1: "c1 = first_camera h world" using l by simp
  have ra: "renderer_after world h r =
     (case first_camera h world of None \<Rightarrow> r1
      | Some (cam, owner) \<Rightarrow> fst (render_frame (cam, owner) h1 r1))"
    using c1 by (simp add: renderer_after_def render_def t split: option.splits prod.splits)
  show "opaqueCommands (renderer_after world h r)
           = filter (\<lambda>c. \<not> is_transparent c) (collected_commands h world)"
    using l by (simp add: ra render_frame_renderer clear_lists_fields split: option.splits)
  show "transparentCommands (renderer_after world h r)
           = (case first_camera h world of
                None \<Rightarrow> filter is_transparent (collected_commands h world)
              | Some (cam, owner) \<Rightarrow>
                  std_sort (drawn_before (camera_forward owner) (camera_center owner))
                    (filter is_transparent (collected_commands h world)))"
    using l by (simp add: ra render_frame_renderer clear_lists_fields split: option.splits)
  show "directionalLights (renderer_after world h r)
           = concat (map (\<lambda>e. pointer_list (getComponent is_DirectionalLight h e)) world)"
    using l by (simp add: ra render_frame_renderer clear_lists_fields split: option.splits)
  show "spotLights (renderer_after world h r)
           = concat (map (\<lambda>e. pointer_list (getComponent is_SpotLight h e)) world)"
    using l by (simp add: ra render_frame_renderer clear_lists_fields split: option.splits)
  show "coneLights (renderer_after world h r)
           = concat (map (getAllComponents is_ConeLight h) world)"
    using l by (simp add: ra render_frame_renderer clear_lists_fields split: option.splits)
  show "clear_lists (renderer_after world h r) = clear_lists r"
    using l by (auto simp add: ra render_frame_renderer clear_lists_fields clear_lists_def split: option.splits)
qed

lemma origin_translation:
  fixes m :: "'a::semiring_1 mat4"
  shows "vec3_of (mat4_mul_vec4 m (Vec4 0 0 0 1)) = vec3_of (col3 m)"
  by (cases m; cases "col3 m") (simp add: mat4_mul_vec4_def vec4_add_def vec4_scale_def vec3_of_def)

lemma direction_linear:
  fixes m :: "'a::semiring_1 mat4"
  shows "vec3_of (mat4_mul_vec4 m (vec4_of d 0)) = linear_part m d"
  by (simp add: mat4_mul_vec4_def vec4_add_def vec4_scale_def vec3_of_def vec4_of_def linear_part_def)

lemma owner_unique:
  assumes "distinct (concat (map components world))"
    and "e \<in> set world" and "e' \<in> set world"
    and "a \<in> set (components e)" and "a \<in> set (components e')"
  shows "e' = e"
  using assms
proof (induction world)
  case Nil
  then show ?case by simp
next
  case (Cons x world)
  then show ?case by (cases "e = x"; cases "e' = x") auto
qed

lemma in_pointer_list: "a \<in> set (pointer_list p) \<longleftrightarrow> p = Some a"
  by (cases p) (auto simp: pointer_list_def)

lemma in_pointer_lists:
  "a \<in> set (concat (map (\<lambda>e. pointer_list (f e)) world)) \<longleftrightarrow> (\<exists>e\<in>set world. f e = Some a)"
  by (simp add: in_pointer_list)

lemma scene_distinct: "distinct (concat (map components scene_world))"
  by (simp add: scene_world_def)

lemma scene_lights:
  "directionalLights (renderer_after scene_world scene_store scene_renderer) = [5]"
  "spotLights (renderer_after scene_world scene_store scene_renderer) = [6]"
  "coneLights (renderer_after scene_world scene_store scene_renderer) = [7, 8]"
  by (simp_all add: render_lists scene_world_def scene_store_def pointer_list_def
        getComponent_def getAllComponents_def has_kind_def)

section \<open>The lights after the traversal\<close>

text \<open>
  Claim C6. After the traversal of a frame, every collected spot light's cached world
  position equals the translation component of its owning entity's world transform,
  that is \<open>localToWorld\<close> applied to the local origin \<open>(0, 0, 0, 1)\<close>.

  Each component has one owner: no address is listed twice in the world. Then a
  pointer in the spot-light list is the first spot light of exactly one entity, and
  after \<open>render\<close> the component is what it was before with its cached position
  replaced by \<open>vec3 (localToWorld * (0, 0, 0, 1))\<close>, which in exact arithmetic is the
  fourth column of the transform.
\<close>

theorem C6_spot_world_position:
  fixes world :: "'a::{semiring_1,uminus,minus,ord} entity list"
  assumes "distinct (concat (map components world))"
    and "sl \<in> set (spotLights (renderer_after world h r))"
  shows "\<exists>entity l. entity \<in> set world \<and> getComponent is_SpotLight h entity = Some sl
           \<and> (\<forall>e\<in>set world. sl \<in> set (components e) \<longrightarrow> e = entity)
           \<and> h sl = Some (SpotLight l)
           \<and> store_after world h r sl =
               Some (SpotLight (l\<lparr>sl_worldPosition :=
                  vec3_of (mat4_mul_vec4 (getLocalToWorldMatrix entity) (Vec4 0 0 0 1))\<rparr>))
           \<and> vec3_of (mat4_mul_vec4 (getLocalToWorldMatrix entity) (Vec4 0 0 0 1))
               = vec3_of (col3 (getLocalToWorldMatrix entity))"
proof -
  from assms(2) obtain e where e: "e \<in> set world" "getComponent is_SpotLight h e = Some sl"
    unfolding render_lists in_pointer_lists by blast
  then have a: "sl \<in> set (components e)" by (simp add: getComponent_member)
  from traverse_spot[OF assms(1) e, of None "clear_lists r"]
  obtain l where l: "h sl = Some (SpotLight l)"
    "store_after world h r sl =
       Some (SpotLight (l\<lparr>sl_worldPosition :=
          vec3_of (mat4_mul_vec4 (getLocalToWorldMatrix e) (Vec4 0 0 0 1))\<rparr>))"
    by (auto simp: render_store)
  have "\<forall>e'\<in>set world. sl \<in> set (components e') \<longrightarrow> e' = e"
    using owner_unique[OF assms(1) e(1) _ a] by blast
  with e l origin_translation[of "getLocalToWorldMatrix e"] show ?thesis by blast
qed

theorem C6_witness:
  "distinct (concat (map components scene_world))
   \<and> 6 \<in> set (spotLights (renderer_after scene_world scene_store scene_renderer))
   \<and> (\<exists>entity l. entity \<in> set scene_world \<and> getComponent is_SpotLight scene_store entity = Some 6
           \<and> (\<forall>e\<in>set scene_world. 6 \<in> set (components e) \<longrightarrow> e = entity)
           \<and> scene_store 6 = Some (SpotLight l)
           \<and> store_after scene_world scene_store scene_renderer 6 =
               Some (SpotLight (l\<lparr>sl_worldPosition :=
                  vec3_of (mat4_mul_vec4 (getLocalToWorldMatrix entity) (Vec4 0 0 0 1))\<rparr>))
           \<and> vec3_of (mat4_mul_vec4 (getLocalToWorldMatrix entity) (Vec4 0 0 0 1))
               = vec3_of (col3 (getLocalToWorldMatrix entity)))"
  using C6_spot_world_position[of scene_world 6 scene_store scene_renderer]
  by (simp add: scene_lights scene_distinct)

text \<open>
  Claim C7. After the traversal of a frame, every collected cone light's cached world
  direction equals its local direction transformed by the owning entity's
  \<open>localToWorld\<close> with zero homogeneous weight: \<open>localToWorld * vec4(direction, 0)\<close>,
  rotated and scaled but not translated.

  A pointer in the cone-light list is a cone light of exactly one entity; after
  \<open>render\<close> the component is what it was before with its two cached fields replaced,
  the direction by \<open>vec3 (localToWorld * vec4(direction, 0))\<close>, which in exact
  arithmetic is the linear part of the transform applied to the direction.
\<close>

theorem C7_cone_world_direction:
  fixes world :: "'a::{semiring_1,uminus,minus,ord} entity list"
  assumes "distinct (concat (map components world))"
    and "cl \<in> set (coneLights (renderer_after world h r))"
  shows "\<exists>entity l. entity \<in> set world \<and> cl \<in> set (getAllComponents is_ConeLight h entity)
           \<and> (\<forall>e\<in>set world. cl \<in> set (components e) \<longrightarrow> e = entity)
           \<and> h cl = Some (ConeLight l)
           \<and> store_after world h r cl =
               Some (ConeLight (l\<lparr>cl_worldPosition :=
                    vec3_of (mat4_mul_vec4 (getLocalToWorldMatrix entity) (Vec4 0 0 0 1)),
                  cl_worldDirection :=
                    vec3_of (mat4_mul_vec4 (getLocalToWorldMatrix entity)
                               (vec4_of (cl_direction l) 0))\<rparr>))
           \<and> vec3_of (mat4_mul_vec4 (getLocalToWorldMatrix entity) (vec4_of (cl_direction l) 0))
               = linear_part (getLocalToWorldMatrix entity) (cl_direction l)"
proof -
  from assms(2) obtain e where e: "e \<in> set world" "cl \<in> set (getAllComponents is_ConeLight h e)"
    by (auto simp: render_lists)
  then have a: "cl \<in> set (components e)" using getAllComponents_subset by blast
  from traverse_cone[OF assms(1) e, of None "clear_lists r"]
  obtain l where l: "h cl = Some (ConeLight l)"
    "store_after world h r cl =
       Some (ConeLight (l\<lparr>cl_worldPosition :=
            vec3_of (mat4_mul_vec4 (getLocalToWorldMatrix e) (Vec4 0 0 0 1)),
          cl_worldDirection :=
            vec3_of (mat4_mul_vec4 (getLocalToWorldMatrix e) (vec4_of (cl_direction l) 0))\<rparr>))"
    by (auto simp: render_store)
  have "\<forall>e'\<in>set world. cl \<in> set (components e') \<longrightarrow> e' = e"
    using owner_unique[OF assms(1) e(1) _ a] by blast
  with e l direction_linear[of "getLocalToWorldMatrix e" "cl_direction l"] show ?thesis by blast
qed

theorem C7_witness:
  "distinct (concat (map components scene_world))
   \<and> 8 \<in> set (coneLights (renderer_after scene_world scene_store scene_renderer))
   \<and> (\<exists>entity l. entity \<in> set scene_world
           \<and> 8 \<in> set (getAllComponents is_ConeLight scene_store entity)
           \<and> (\<forall>e\<in>set scene_world. 8 \<in> set (components e) \<longrightarrow> e = entity)
           \<and> scene_store 8 = Some (ConeLight l)
           \<and> store_after scene_world scene_store scene_renderer 8 =
               Some (ConeLight (l\<lparr>cl_worldPosition :=
                    vec3_of (mat4_mul_vec4 (getLocalToWorldMatrix entity) (Vec4 0 0 0 1)),
                  cl_worldDirection :=
                    vec3_of (mat4_mul_vec4 (getLocalToWorldMatrix entity)
                               (vec4_of (cl_direction l) 0))\<rparr>))
           \<and> vec3_of (mat4_mul_vec4 (getLocalToWorldMatrix entity) (vec4_of (cl_direction l) 0))
               = linear_part (getLocalToWorldMatrix entity) (cl_direction l))"
  using C7_cone_world_direction[of scene_world 8 scene_store scene_renderer]
  by (simp add: scene_lights scene_distinct)

text \<open>
  Claim C8. The traversal never writes to a field of a directional-light component:
  for every directional light collected in a frame, its direction and every other
  field after \<open>render\<close> equal their values before.

  A directional light in the store is the same component after \<open>render\<close>, and every
  pointer in the directional-light list points to one.
\<close>

theorem C8_directional_lights_untouched:
  fixes world :: "'a::{zero,one,uminus,plus,minus,times,ord} entity list"
  shows "(h a = Some (DirectionalLight l) \<longrightarrow> store_after world h r a = Some (DirectionalLight l))
       \<and> (a \<in> set (directionalLights (renderer_after world h r)) \<longrightarrow>
            (\<exists>l. h a = Some (DirectionalLight l)) \<and> store_after world h r a = h a)"
proof -
  have 1: "store_after world h r a = Some (DirectionalLight l')" if "h a = Some (DirectionalLight l')" for l'
    using render_scene[of h world r] that by (simp add: same_scene_fixed)
  have 2: "\<exists>l. h a = Some (DirectionalLight l)"
    if "a \<in> set (directionalLights (renderer_after world h r))"
  proof -
    from that obtain e where "getComponent is_DirectionalLight h e = Some a"
      unfolding render_lists in_pointer_lists by blast
    then have "has_kind is_DirectionalLight h a" by (simp add: getComponent_member)
    then show ?thesis
      by (auto simp: has_kind_def is_DirectionalLight_def split: option.splits)
  qed
  from 1 2 show ?thesis by fastforce
qed

theorem C8_witness:
  "scene_store 5 = Some (DirectionalLight scene_directional)
   \<and> 5 \<in> set (directionalLights (renderer_after scene_world scene_store scene_renderer))
   \<and> store_after scene_world scene_store scene_renderer 5 = Some (DirectionalLight scene_directional)"
  using C8_directional_lights_untouched
    [of scene_store 5 scene_directional scene_world scene_renderer]
  by (simp add: scene_lights) (simp add: scene_store_def)

section \<open>One pointer or all of them\<close>

lemma find_take_filter: "pointer_list (find P xs) = take 1 (filter P xs)"
  by (induction xs) (simp_all add: pointer_list_def)

text \<open>
  Claim C10. Per frame, the traversal collects at most one spot-light component and at
  most one directional-light component from any single entity (only the first found
  of each kind), whereas it collects every cone-light component an entity carries.

  The directional and the spot list are made of the first component of the kind of
  each entity, if it has one; the cone list is made of all cone lights of each entity.
\<close>

theorem C10_light_entries_per_entity:
  fixes world :: "'a::{zero,one,uminus,plus,minus,times,ord} entity list"
  shows "directionalLights (renderer_after world h r)
           = concat (map (\<lambda>entity. take 1 (getAllComponents is_DirectionalLight h entity)) world)
       \<and> spotLights (renderer_after world h r)
           = concat (map (\<lambda>entity. take 1 (getAllComponents is_SpotLight h entity)) world)
       \<and> coneLights (renderer_after world h r)
           = concat (map (\<lambda>entity. getAllComponents is_ConeLight h entity) world)"
  by (simp add: render_lists getComponent_def getAllComponents_def[abs_def] find_take_filter)

theorem C10_witness:
  "getAllComponents is_DirectionalLight scene_store (scene_world ! 1) = [5, 10]
   \<and> getAllComponents is_SpotLight scene_store (scene_world ! 2) = [6, 9]
   \<and> getAllComponents is_ConeLight scene_store (scene_world ! 3) = [7, 8]
   \<and> directionalLights (renderer_after scene_world scene_store scene_renderer) = [5]
   \<and> spotLights (renderer_after scene_world scene_store scene_renderer) = [6]
   \<and> coneLights (renderer_after scene_world scene_store scene_renderer) = [7, 8]"
  using C10_light_entries_per_entity[of scene_world scene_store scene_renderer]
  by (simp add: scene_world_def scene_store_def getAllComponents_def has_kind_def)

section \<open>A frame without a camera\<close>

lemma no_camera: "(\<forall>entity\<in>set world. getComponent is_Camera h entity = None) \<Longrightarrow> first_camera h world = None"
  by (induction world) (simp_all add: getCamera_def)

lemma render_calls_none: "first_camera h world = None \<Longrightarrow> calls_of world h r = []"
proof -
  assume n: "first_camera h world = None"
  obtain c1 r1 h1 where t: "traverse world (None, clear_lists r, h) = (c1, r1, h1)"
    by (cases "traverse world (None, clear_lists r, h)")
  from traverse_lists[OF t same_scene_refl] n have "c1 = None" by simp
  then show ?thesis by (simp add: calls_of_def render_def t)
qed

lemma visit_untouched:
  assumes "getComponent is_SpotLight h e \<noteq> Some a" and "a \<notin> set (getAllComponents is_ConeLight h e)"
  shows "snd (snd (visit e (c, r, h))) a = h a"
proof -
  let ?p = "mat4_mul_vec4 (getLocalToWorldMatrix e) (Vec4 0 0 0 1)"
  let ?r2 = "collect_directional h e (collect_mesh h e (getLocalToWorldMatrix e) ?p r)"
  obtain r3 h3 where s: "collect_spot e ?p (?r2, h) = (r3, h3)"
    by (cases "collect_spot e ?p (?r2, h)")
  have "snd (snd (visit e (c, r, h))) a = h3 a"
    using assms(2) by (simp add: visit_snd s collect_cones_outside)
  also have "h3 a = h a"
    using collect_spot_other[OF assms(1), of ?p ?r2] s by simp
  finally show ?thesis .
qed

lemma traverse_untouched:
  assumes "same_scene h0 h"
    and "a \<notin> set (concat (map (\<lambda>e. pointer_list (getComponent is_SpotLight h0 e)) world))"
    and "a \<notin> set (concat (map (getAllComponents is_ConeLight h0) world))"
  shows "snd (snd (traverse world (c, r, h))) a = h a"
  using assms
proof (induction world arbitrary: c r h)
  case Nil
  then show ?case by simp
next
  case (Cons e world)
  obtain c1 r1 h1 where v: "visit e (c, r, h) = (c1, r1, h1)" by (cases "visit e (c, r, h)")
  have s1: "same_scene h0 h1" using Cons.prems(1) visit_scene[OF v] by (rule same_scene_trans)
  have "getComponent is_SpotLight h e \<noteq> Some a" "a \<notin> set (getAllComponents is_ConeLight h e)"
    using Cons.prems
    by (simp_all add: same_scene_getComponent same_scene_getAllComponents kind_tests in_pointer_list)
  then have "h1 a = h a" using visit_untouched[of h e a c r] v by simp
  moreover have "snd (snd (traverse world (c1, r1, h1))) a = h1 a"
    using Cons.prems by (intro Cons.IH[OF s1]) simp_all
  ultimately show ?case using v by simp
qed

lemma renderer_from_lists:
  assumes "clear_lists r' = clear_lists r"
  shows "r' = r\<lparr>opaqueCommands := opaqueCommands r', transparentCommands := transparentCommands r',
               directionalLights := directionalLights r', spotLights := spotLights r',
               coneLights := coneLights r'\<rparr>"
  using assms by (cases r; cases r') (simp add: clear_lists_def)

text \<open>
  Claim C2, as amended. In a frame in which no entity carries a camera, \<open>render\<close>
  issues no call at all (so no clear and no draw, and the output target is as it
  was); of the renderer only the five per-frame lists change, which hold what the
  traversal collected; and the store holds the same scene: nothing changes outside
  the collected spot and cone lights, and these change only in their cached world
  position and direction.
\<close>

theorem C2_no_camera_frame:
  fixes world :: "'a::{zero,one,uminus,plus,minus,times,ord} entity list"
  assumes "\<forall>entity\<in>set world. getComponent is_Camera h entity = None"
  shows "calls_of world h r = []
       \<and> renderer_after world h r =
           r\<lparr>opaqueCommands := filter (\<lambda>c. \<not> is_transparent c) (collected_commands h world),
             transparentCommands := filter is_transparent (collected_commands h world),
             directionalLights :=
               concat (map (\<lambda>e. pointer_list (getComponent is_DirectionalLight h e)) world),
             spotLights := concat (map (\<lambda>e. pointer_list (getComponent is_SpotLight h e)) world),
             coneLights := concat (map (getAllComponents is_ConeLight h) world)\<rparr>
       \<and> same_scene h (store_after world h r)
       \<and> (\<forall>a. a \<notin> set (spotLights (renderer_after world h r)) \<and>
                a \<notin> set (coneLights (renderer_after world h r)) \<longrightarrow>
                store_after world h r a = h a)"
proof -
  have n: "first_camera h world = None" using assms by (rule no_camera)
  have 1: "calls_of world h r = []" using n by (rule render_calls_none)
  have 2: "renderer_after world h r =
           r\<lparr>opaqueCommands := filter (\<lambda>c. \<not> is_transparent c) (collected_commands h world),
             transparentCommands := filter is_transparent (collected_commands h world),
             directionalLights :=
               concat (map (\<lambda>e. pointer_list (getComponent is_DirectionalLight h e)) world),
             spotLights := concat (map (\<lambda>e. pointer_list (getComponent is_SpotLight h e)) world),
             coneLights := concat (map (getAllComponents is_ConeLight h) world)\<rparr>"
    using renderer_from_lists[OF render_lists(6)[of world h r]] n
    by (simp add: render_lists)
  have 4: "store_after world h r a = h a"
    if "a \<notin> set (spotLights (renderer_after world h r))"
      "a \<notin> set (coneLights (renderer_after world h r))" for a
    using that traverse_untouched[OF same_scene_refl, of a h world None "clear_lists r"]
    by (simp add: render_lists render_store)
  from 1 2 4 render_scene[of h world r] show ?thesis by blast
qed

lemma scene_no_camera:
  "\<forall>entity\<in>set scene_without_camera. getComponent is_Camera scene_store entity = None"
  by (simp add: scene_without_camera_def scene_world_def scene_store_def getComponent_def has_kind_def)

lemma scene_no_camera_list:
  "map (getComponent is_Camera scene_store) scene_without_camera = [None, None, None]"
  by (simp add: scene_without_camera_def scene_world_def scene_store_def getComponent_def has_kind_def)

theorem C2_witness:
  "map (getComponent is_Camera scene_store) scene_without_camera = [None, None, None]
   \<and> calls_of scene_without_camera scene_store scene_renderer = []
   \<and> spotLights (renderer_after scene_without_camera scene_store scene_renderer) = [6]
   \<and> coneLights (renderer_after scene_without_camera scene_store scene_renderer) = [7, 8]
   \<and> skyMaterial (renderer_after scene_without_camera scene_store scene_renderer)
       = skyMaterial scene_renderer
   \<and> store_after scene_without_camera scene_store scene_renderer 9 = scene_store 9"
  using C2_no_camera_frame[of scene_without_camera scene_store scene_renderer] scene_no_camera
  by (simp add: scene_no_camera_list)
     (simp add: scene_without_camera_def scene_world_def scene_store_def pointer_list_def
        getComponent_def getAllComponents_def has_kind_def)

text \<open>
  Claim C2 as stated, with nothing mutated but the lists, fails: in the sample scene
  without its camera the spot light at address 6 has its cached position overwritten.
\<close>

theorem C2_counterexample:
  "map (getComponent is_Camera scene_store) scene_without_camera = [None, None, None]
   \<and> scene_store 6 = Some (SpotLight scene_spot)
   \<and> sl_worldPosition scene_spot = Vec3 9 9 9
   \<and> store_after scene_without_camera scene_store scene_renderer 6
       = Some (SpotLight (scene_spot\<lparr>sl_worldPosition := Vec3 0 0 (- 2)\<rparr>))
   \<and> store_after scene_without_camera scene_store scene_renderer \<noteq> scene_store"
proof -
  have d: "distinct (concat (map components scene_without_camera))"
    by (simp add: scene_without_camera_def scene_world_def)
  have e: "scene_world ! 2 \<in> set scene_without_camera"
    by (simp add: scene_without_camera_def scene_world_def)
  have g: "getComponent is_SpotLight scene_store (scene_world ! 2) = Some 6"
    by (simp add: scene_world_def scene_store_def getComponent_def has_kind_def)
  have s: "scene_store 6 = Some (SpotLight scene_spot)" by (simp add: scene_store_def)
  from traverse_spot[OF d e g, of None "clear_lists scene_renderer"] s
  have w: "store_after scene_without_camera scene_store scene_renderer 6
       = Some (SpotLight (scene_spot\<lparr>sl_worldPosition := Vec3 0 0 (- 2)\<rparr>))"
    by (simp add: render_store scene_world_def at_def mat4_mul_vec4_def vec4_add_def
          vec4_scale_def vec3_of_def)
  have p: "sl_worldPosition scene_spot = Vec3 9 9 9" by (simp add: scene_spot_def)
  have "store_after scene_without_camera scene_store scene_renderer 6 \<noteq> scene_store 6"
  proof
    assume "store_after scene_without_camera scene_store scene_renderer 6 = scene_store 6"
    with w s have "scene_spot\<lparr>sl_worldPosition := Vec3 0 0 (- 2)\<rparr> = scene_spot" by simp
    then have "sl_worldPosition (scene_spot\<lparr>sl_worldPosition := Vec3 0 0 (- 2)\<rparr>)
                 = sl_worldPosition scene_spot" by simp
    with p show False by simp
  qed
  then have "store_after scene_without_camera scene_store scene_renderer \<noteq> scene_store" by auto
  with scene_no_camera_list s p w show ?thesis by simp
qed

section \<open>The transparency sort\<close>

lemma mset_insert_by: "mset (insert_by cmp x ys) = add_mset x (mset ys)"
  by (induction ys) simp_all

lemma mset_insert_all:
  "mset (foldl (\<lambda>sorted x. insert_by cmp x sorted) ys xs) = mset ys + mset xs"
  by (induction xs arbitrary: ys) (simp_all add: mset_insert_by)

lemma std_sort_mset: "mset (std_sort cmp xs) = mset xs"
  by (simp add: std_sort_def mset_insert_all)

lemma set_insert_by: "set (insert_by cmp x ys) = insert x (set ys)"
  by (induction ys) auto

lemma insert_by_ordered:
  fixes key :: "'c \<Rightarrow> 'k::linorder"
  assumes "sorted_wrt (\<lambda>a b. key b \<le> key a) ys"
  shows "sorted_wrt (\<lambda>a b. key b \<le> key a) (insert_by (\<lambda>a b. key b < key a) x ys)"
  using assms by (induction ys) (auto simp: set_insert_by)

lemma insert_all_ordered:
  fixes key :: "'c \<Rightarrow> 'k::linorder"
  assumes "sorted_wrt (\<lambda>a b. key b \<le> key a) ys"
  shows "sorted_wrt (\<lambda>a b. key b \<le> key a)
           (foldl (\<lambda>sorted x. insert_by (\<lambda>a b. key b < key a) x sorted) ys xs)"
  using assms by (induction xs arbitrary: ys) (simp_all add: insert_by_ordered)

lemma std_sort_ordered:
  fixes key :: "'c \<Rightarrow> 'k::linorder"
  shows "sorted_wrt (\<lambda>a b. key b \<le> key a) (std_sort (\<lambda>a b. key b < key a) xs)"
  by (simp add: std_sort_def insert_all_ordered)

text \<open>Commands of the same key keep the order in which they were collected.\<close>

lemma insert_by_stable:
  fixes key :: "'c \<Rightarrow> 'k::linorder"
  assumes "sorted_wrt (\<lambda>a b. key b \<le> key a) ys"
  shows "filter (\<lambda>y. key y = k) (insert_by (\<lambda>a b. key b < key a) x ys)
           = filter (\<lambda>y. key y = k) ys @ (if key x = k then [x] else [])"
  using assms
proof (induction ys)
  case Nil
  then show ?case by simp
next
  case (Cons y ys)
  show ?case
  proof (cases "key y < key x")
    case True
    have "key z \<noteq> key x" if "z \<in> set (y # ys)" for z
      using that True Cons.prems by auto
    then have "filter (\<lambda>z. key z = key x) (y # ys) = []"
      by (simp only: filter_empty_conv) blast
    then show ?thesis using True by auto
  next
    case False
    then show ?thesis using Cons by auto
  qed
qed

lemma insert_all_stable:
  fixes key :: "'c \<Rightarrow> 'k::linorder"
  assumes "sorted_wrt (\<lambda>a b. key b \<le> key a) ys"
  shows "filter (\<lambda>y. key y = k)
           (foldl (\<lambda>sorted x. insert_by (\<lambda>a b. key b < key a) x sorted) ys xs)
           = filter (\<lambda>y. key y = k) ys @ filter (\<lambda>y. key y = k) xs"
  using assms
  by (induction xs arbitrary: ys) (simp_all add: insert_by_ordered insert_by_stable)

lemma std_sort_stable:
  fixes key :: "'c \<Rightarrow> 'k::linorder"
  shows "filter (\<lambda>y. key y = k) (std_sort (\<lambda>a b. key b < key a) xs)
           = filter (\<lambda>y. key y = k) xs"
  by (simp add: std_sort_def insert_all_stable)

text \<open>
  Any result that meets the contract of \<^verbatim>\<open>std::sort\<close> for this comparator, not only
  that of the insertion sort, is in descending order of the key.
\<close>

lemma sort_contract_descending:
  fixes key :: "'c \<Rightarrow> 'k::linorder"
  assumes "sorted_wrt (\<lambda>a b. \<not> (\<lambda>x y. key y < key x) b a) ys"
  shows "sorted_wrt (\<lambda>a b. key b \<le> key a) ys"
  using assms by (simp add: not_less)

lemma drawn_before_projected:
  "drawn_before f c = (\<lambda>a b. projected f c b < projected f c a)"
  by (intro ext) (simp add: drawn_before_def projected_def)

text \<open>In the model, transparent commands of equal projection are drawn in the order of the visit.\<close>

lemma render_transparent_stable:
  fixes world :: "'a::{zero,one,uminus,plus,minus,times,linorder} entity list"
  assumes "first_camera h world = Some (cam, owner)"
  shows "filter (\<lambda>c. projected (camera_forward owner) (camera_center owner) c = k)
           (transparentCommands (renderer_after world h r))
         = filter (\<lambda>c. projected (camera_forward owner) (camera_center owner) c = k)
             (filter is_transparent (collected_commands h world))"
  by (simp add: render_lists assms drawn_before_projected std_sort_stable)

text \<open>
  Claim C1. After the transparency sort in \<open>render\<close>, for every adjacent pair of
  transparent commands (A before B) in the sorted list,
  \<open>dot (A.center - cameraCenter) cameraForward \<ge> dot (B.center - cameraCenter) cameraForward\<close>:
  the comparator orders A before B exactly when A's projection onto the camera's
  forward direction is greater than B's, so the order is back to front.

  The scalars are linearly ordered (floats without NaN). In a frame with a camera the
  transparent list is a permutation of the transparent commands collected, each
  command's projection is at most that of the command before it, and the comparator
  holds exactly when the first command's projection is greater.
\<close>

theorem C1_transparent_back_to_front:
  fixes world :: "'a::{zero,one,uminus,plus,minus,times,linorder} entity list"
  assumes "first_camera h world = Some (cam, owner)"
  shows "mset (transparentCommands (renderer_after world h r))
           = mset (filter is_transparent (collected_commands h world))
       \<and> (\<forall>i. Suc i < length (transparentCommands (renderer_after world h r)) \<longrightarrow>
             projected (camera_forward owner) (camera_center owner)
               (transparentCommands (renderer_after world h r) ! Suc i)
             \<le> projected (camera_forward owner) (camera_center owner)
                 (transparentCommands (renderer_after world h r) ! i))
       \<and> (\<forall>A B. drawn_before (camera_forward owner) (camera_center owner) A B
             \<longleftrightarrow> projected (camera_forward owner) (camera_center owner) B
                   < projected (camera_forward owner) (camera_center owner) A)"
proof -
  let ?key = "projected (camera_forward owner) (camera_center owner)"
  let ?ts = "transparentCommands (renderer_after world h r)"
  have ts: "?ts = std_sort (\<lambda>a b. ?key b < ?key a) (filter is_transparent (collected_commands h world))"
    using assms by (simp add: render_lists drawn_before_projected)
  have 1: "mset ?ts = mset (filter is_transparent (collected_commands h world))"
    by (simp only: ts std_sort_mset)
  have "sorted_wrt (\<lambda>a b. ?key b \<le> ?key a) ?ts"
    by (simp only: ts std_sort_ordered)
  then have 2: "?key (?ts ! Suc i) \<le> ?key (?ts ! i)" if "Suc i < length ?ts" for i
    using that by (simp add: sorted_wrt_iff_nth_less)
  have 3: "drawn_before (camera_forward owner) (camera_center owner) A B \<longleftrightarrow> ?key B < ?key A" for A B
    by (simp add: drawn_before_projected)
  from 1 2 3 show ?thesis by blast
qed

lemma scene_first_camera: "first_camera scene_store scene_world = Some (scene_camera, scene_world ! 0)"
  by (simp add: scene_world_def scene_store_def getCamera_def getComponent_def has_kind_def)

lemma scene_collected:
  "map mesh (collected_commands scene_store scene_world) = [20, 30, 40]"
  "map is_transparent (collected_commands scene_store scene_world) = [False, True, True]"
  by (simp_all add: collected_commands_def command_of_def scene_world_def scene_store_def
        getComponent_def has_kind_def is_transparent_def scene_material_def)

theorem C1_witness:
  "first_camera scene_store scene_world = Some (scene_camera, scene_world ! 0)
   \<and> mset (transparentCommands (renderer_after scene_world scene_store scene_renderer))
       = mset (filter is_transparent (collected_commands scene_store scene_world))
   \<and> projected (camera_forward (scene_world ! 0)) (camera_center (scene_world ! 0))
        (transparentCommands (renderer_after scene_world scene_store scene_renderer) ! Suc 0)
      \<le> projected (camera_forward (scene_world ! 0)) (camera_center (scene_world ! 0))
          (transparentCommands (renderer_after scene_world scene_store scene_renderer) ! 0)"
proof -
  note t = C1_transparent_back_to_front[OF scene_first_camera, of scene_renderer]
  have "length (filter is_transparent (collected_commands scene_store scene_world)) = 2"
    by (simp add: collected_commands_def command_of_def scene_world_def scene_store_def
          getComponent_def has_kind_def is_transparent_def scene_material_def)
  then have "size (mset (transparentCommands (renderer_after scene_world scene_store scene_renderer))) = 2"
    using t by (simp only: size_mset)
  then have "Suc 0 < length (transparentCommands (renderer_after scene_world scene_store scene_renderer))"
    by simp
  with t scene_first_camera show ?thesis by blast
qed

section \<open>The order of the draw calls\<close>

lemma no_draw_concat:
  "(\<And>x. filter is_draw (f x) = []) \<Longrightarrow> filter is_draw (concat (map f xs)) = []"
  by (induction xs) simp_all

lemma one_draw_concat:
  "(\<And>x. filter is_draw (f x) = [g x]) \<Longrightarrow> filter is_draw (concat (map f xs)) = map g xs"
  by (induction xs) simp_all

lemma bind_lights_no_draw: "filter is_draw (bind_lights h r sh) = []"
proof -
  have 1: "filter is_draw (bind_directionalLights h sh ls) = []" for ls
    unfolding bind_directionalLights_def
    by (rule no_draw_concat) (simp add: is_draw_def Let_def split: option.splits component.splits)
  have 2: "filter is_draw (bind_spotLights h sh ls) = []" for ls
    unfolding bind_spotLights_def
    by (rule no_draw_concat) (simp add: is_draw_def Let_def split: option.splits component.splits)
  have 3: "filter is_draw (bind_coneLights h sh ls) = []" for ls
    unfolding bind_coneLights_def
    by (rule no_draw_concat) (simp add: is_draw_def Let_def split: option.splits component.splits)
  show ?thesis by (simp add: bind_lights_def 1 2 3) (simp add: is_draw_def)
qed

lemma draw_opaque_draws: "filter is_draw (draw_opaque h r VP c k) = [MeshDraw (mesh k)]"
  by (simp add: draw_opaque_def Let_def bind_lights_no_draw) (simp add: is_draw_def)

lemma draw_transparent_draws: "filter is_draw (draw_transparent h r VP c k) = [MeshDraw (mesh k)]"
  by (simp add: draw_transparent_def Let_def bind_lights_no_draw) (simp add: is_draw_def)

lemma draw_sky_draws:
  "filter is_draw (draw_sky r VP c cam)
     = (case skyMaterial r of None \<Rightarrow> [] | Some sky \<Rightarrow> [MeshDraw (skySphere r)])"
  by (simp add: draw_sky_def Let_def is_draw_def split: option.splits)

lemma draw_postprocess_draws:
  "filter is_draw (draw_postprocess r)
     = (case postprocessMaterial r of None \<Rightarrow> [] | Some pp \<Rightarrow> [DrawArrays GL_TRIANGLES 0 3])"
  by (simp add: draw_postprocess_def is_draw_def split: option.splits)

lemma render_frame_draws:
  "filter is_draw (snd (render_frame (cam, owner) h r)) =
     map (\<lambda>c. MeshDraw (mesh c)) (opaqueCommands r)
     @ (case skyMaterial r of None \<Rightarrow> [] | Some sky \<Rightarrow> [MeshDraw (skySphere r)])
     @ map (\<lambda>c. MeshDraw (mesh c))
         (std_sort (drawn_before (camera_forward owner) (camera_center owner)) (transparentCommands r))
     @ (case postprocessMaterial r of None \<Rightarrow> [] | Some pp \<Rightarrow> [DrawArrays GL_TRIANGLES 0 3])"
proof -
  have o: "filter is_draw (concat (map (draw_opaque h r' VP c) ks)) = map (\<lambda>c. MeshDraw (mesh c)) ks"
    for r' VP c ks
    by (rule one_draw_concat) (rule draw_opaque_draws)
  have t: "filter is_draw (concat (map (draw_transparent h r' VP c) ks)) = map (\<lambda>c. MeshDraw (mesh c)) ks"
    for r' VP c ks
    by (rule one_draw_concat) (rule draw_transparent_draws)
  have b: "filter is_draw (case postprocessMaterial r of None \<Rightarrow> []
             | Some pp \<Rightarrow> [BindFramebuffer GL_FRAMEBUFFER (postprocessFrameBuffer r)]) = []"
    by (simp add: is_draw_def split: option.splits)
  show ?thesis
    by (simp add: render_frame_def Let_def o t b draw_sky_draws draw_postprocess_draws
          camera_forward_def camera_center_def vec3_of_def cong: option.case_cong)
       (simp add: is_draw_def)
qed

lemma clear_lists_rest:
  assumes "clear_lists r' = clear_lists r"
  shows "skyMaterial r' = skyMaterial r" "skySphere r' = skySphere r"
    "postprocessMaterial r' = postprocessMaterial r"
proof -
  have "skyMaterial (clear_lists r') = skyMaterial (clear_lists r)"
    "skySphere (clear_lists r') = skySphere (clear_lists r)"
    "postprocessMaterial (clear_lists r') = postprocessMaterial (clear_lists r)"
    using assms by simp_all
  then show "skyMaterial r' = skyMaterial r" "skySphere r' = skySphere r"
    "postprocessMaterial r' = postprocessMaterial r"
    by (simp_all add: clear_lists_def)
qed

text \<open>
  Claim C3. In a frame with a camera, draw calls are issued in the order: all opaque
  commands first, in their collection (append) order with no reordering, then the sky
  sphere if the sky feature is enabled, then all transparent commands in sorted
  order, then the post-process fullscreen triangle if post-processing is enabled.

  The scalars are linearly ordered (floats without NaN). The calls of the frame that
  draw are, in this order: one mesh draw for each opaque command collected, in the
  order the traversal met them; the draw of the sky sphere when there is a sky
  material; one mesh draw for each command of the renderer's transparent list; the
  three-vertex triangle when there is a post-process material. The transparent list
  is a permutation of the transparent commands collected, in descending order of
  their projection onto the camera's forward direction. Nothing is said of the order
  of commands with equal projections, which \<^verbatim>\<open>std::sort\<close> leaves open.
\<close>

theorem C3_draw_order:
  fixes world :: "'a::{zero,one,uminus,plus,minus,times,linorder} entity list"
  assumes "first_camera h world = Some (cam, owner)"
  shows "filter is_draw (calls_of world h r) =
           map (\<lambda>c. MeshDraw (mesh c))
             (filter (\<lambda>c. \<not> is_transparent c) (collected_commands h world))
           @ (case skyMaterial r of None \<Rightarrow> [] | Some sky \<Rightarrow> [MeshDraw (skySphere r)])
           @ map (\<lambda>c. MeshDraw (mesh c)) (transparentCommands (renderer_after world h r))
           @ (case postprocessMaterial r of None \<Rightarrow> [] | Some pp \<Rightarrow> [DrawArrays GL_TRIANGLES 0 3])
       \<and> mset (transparentCommands (renderer_after world h r))
           = mset (filter is_transparent (collected_commands h world))
       \<and> sorted_wrt
           (\<lambda>A B. projected (camera_forward owner) (camera_center owner) B
                   \<le> projected (camera_forward owner) (camera_center owner) A)
           (transparentCommands (renderer_after world h r))"
proof -
  obtain c1 r1 h1 where t: "traverse world (None, clear_lists r, h) = (c1, r1, h1)"
    by (cases "traverse world (None, clear_lists r, h)")
  note l = traverse_lists[OF t same_scene_refl]
  have c1: "c1 = Some (cam, owner)" using l assms by simp
  have r1: "opaqueCommands r1 = filter (\<lambda>c. \<not> is_transparent c) (collected_commands h world)"
    "transparentCommands r1 = filter is_transparent (collected_commands h world)"
    "clear_lists r1 = clear_lists r"
    using l by (simp_all add: clear_lists_fields)
  have calls: "calls_of world h r = snd (render_frame (cam, owner) h1 r1)"
    by (simp add: calls_of_def render_def t c1 split: prod.splits)
  let ?key = "projected (camera_forward owner) (camera_center owner)"
  have ts: "transparentCommands (renderer_after world h r) =
           std_sort (\<lambda>a b. ?key b < ?key a) (filter is_transparent (collected_commands h world))"
    using assms by (simp add: render_lists drawn_before_projected)
  have draws: "filter is_draw (calls_of world h r) =
           map (\<lambda>c. MeshDraw (mesh c))
             (filter (\<lambda>c. \<not> is_transparent c) (collected_commands h world))
           @ (case skyMaterial r of None \<Rightarrow> [] | Some sky \<Rightarrow> [MeshDraw (skySphere r)])
           @ map (\<lambda>c. MeshDraw (mesh c)) (transparentCommands (renderer_after world h r))
           @ (case postprocessMaterial r of None \<Rightarrow> [] | Some pp \<Rightarrow> [DrawArrays GL_TRIANGLES 0 3])"
    by (simp add: calls render_frame_draws r1(1,2) clear_lists_rest[OF r1(3)] ts
          drawn_before_projected cong: option.case_cong)
  have perm: "mset (transparentCommands (renderer_after world h r))
           = mset (filter is_transparent (collected_commands h world))"
    by (simp only: ts std_sort_mset)
  have ord: "sorted_wrt (\<lambda>A B. ?key B \<le> ?key A) (transparentCommands (renderer_after world h r))"
    by (simp only: ts std_sort_ordered)
  from draws perm ord show ?thesis by blast
qed

lemma scene_sorted:
  "map mesh (std_sort (drawn_before (camera_forward (scene_world ! 0)) (camera_center (scene_world ! 0)))
     (filter is_transparent (collected_commands scene_store scene_world))) = [40, 30]"
  by (simp add: collected_commands_def command_of_def scene_world_def scene_store_def
        getComponent_def has_kind_def is_transparent_def scene_material_def std_sort_def
        drawn_before_def camera_forward_def camera_center_def at_def dot_def vec3_sub_def
        mat4_mul_vec4_def vec4_add_def vec4_scale_def vec3_of_def)

lemma scene_transparent_meshes:
  "map mesh (transparentCommands (renderer_after scene_world scene_store scene_renderer)) = [40, 30]"
  using scene_sorted by (simp add: render_lists scene_first_camera)

theorem C3_witness:
  "first_camera scene_store scene_world = Some (scene_camera, scene_world ! 0)
   \<and> map mesh (collected_commands scene_store scene_world) = [20, 30, 40]
   \<and> filter is_draw (calls_of scene_world scene_store scene_renderer)
       = [MeshDraw 20, MeshDraw 50, MeshDraw 40, MeshDraw 30, DrawArrays GL_TRIANGLES 0 3]
   \<and> sorted_wrt
        (\<lambda>A B. projected (camera_forward (scene_world ! 0)) (camera_center (scene_world ! 0)) B
                \<le> projected (camera_forward (scene_world ! 0)) (camera_center (scene_world ! 0)) A)
        (transparentCommands (renderer_after scene_world scene_store scene_renderer))"
proof -
  have o: "map mesh (filter (\<lambda>c. \<not> is_transparent c) (collected_commands scene_store scene_world)) = [20]"
    by (simp add: collected_commands_def command_of_def scene_world_def scene_store_def
          getComponent_def has_kind_def is_transparent_def scene_material_def)
  have m: "map (\<lambda>c. MeshDraw (mesh c)) xs = map MeshDraw (map mesh xs)" for xs :: "int RenderCommand list"
    by simp
  note t = C3_draw_order[OF scene_first_camera, of scene_renderer]
  from t have "filter is_draw (calls_of scene_world scene_store scene_renderer)
       = [MeshDraw 20, MeshDraw 50, MeshDraw 40, MeshDraw 30, DrawArrays GL_TRIANGLES 0 3]"
    by (simp only: m o scene_transparent_meshes) (simp add: scene_renderer_def)
  with t scene_first_camera scene_collected(1) show ?thesis by simp
qed

section \<open>The sky's camera matrix\<close>

lemma sky_camera_exact:
  fixes VP :: "'a::semiring_1 mat4"
  shows "mat4_mul_vec4 (sky_camera VP) p =
     Vec4 (v4x (mat4_mul_vec4 VP p)) (v4y (mat4_mul_vec4 VP p))
          (v4w (mat4_mul_vec4 VP p)) (v4w (mat4_mul_vec4 VP p))"
  by (simp add: sky_camera_def alwaysBehindTransform_def mat4_mul_def mat4_mul_vec4_def
        vec4_add_def vec4_scale_def)

text \<open>
  Claim C5. The modified camera matrix bound for the sky draw (the fixed degenerate
  matrix composed with \<open>VP\<close>) forces the sky to the maximum depth value: for every
  position \<open>p\<close>, the resulting clip-space vector has its \<open>z\<close> component equal to its
  \<open>w\<close> component.

  The matrix bound as \<open>Camera\<close> in the sky draw is \<open>alwaysBehindTransform * VP\<close>; rows
  \<open>z\<close> and \<open>w\<close> of this product are computed by the same expressions, so the equation
  needs no law of arithmetic and holds for every vector \<open>p\<close>, whether the shader applies
  the matrix to a vector or first multiplies it with a model matrix \<open>M\<close>.
\<close>

theorem C5_sky_at_maximum_depth:
  fixes VP :: "'a::{zero,one,plus,times} mat4"
  shows "v4z (mat4_mul_vec4 (sky_camera VP) p) = v4w (mat4_mul_vec4 (sky_camera VP) p)
       \<and> v4z (mat4_mul_vec4 (mat4_mul (sky_camera VP) M) p)
           = v4w (mat4_mul_vec4 (mat4_mul (sky_camera VP) M) p)
       \<and> (skyMaterial r = Some sky \<longrightarrow>
            SetUniform (shader sky) ''Camera'' (UMat4 (sky_camera VP))
              \<in> set (draw_sky r VP cameraCenter camera))"
  by (simp add: sky_camera_def alwaysBehindTransform_def mat4_mul_def mat4_mul_vec4_def
        vec4_add_def vec4_scale_def draw_sky_def Let_def)

theorem C5_witness:
  "skyMaterial scene_renderer = Some (scene_material\<lparr>shader := 51, isSkybox := True\<rparr>)
   \<and> v4z (mat4_mul_vec4 (sky_camera (at 1 2 3)) (Vec4 5 6 7 1)) = 1
   \<and> v4w (mat4_mul_vec4 (sky_camera (at 1 2 3)) (Vec4 5 6 7 1)) = 1
   \<and> SetUniform 51 ''Camera'' (UMat4 (sky_camera (at 1 2 3)))
        \<in> set (draw_sky scene_renderer (at 1 2 3) (Vec3 0 0 0) scene_camera)"
  using C5_sky_at_maximum_depth[where VP = "at 1 2 3" and p = "Vec4 5 6 7 1"
          and M = mat4_identity and r = scene_renderer
          and sky = "scene_material\<lparr>shader := 51, isSkybox := True\<rparr>"
          and cameraCenter = "Vec3 0 0 0" and camera = scene_camera]
  by (simp add: scene_renderer_def)
     (simp add: sky_camera_def alwaysBehindTransform_def mat4_mul_def mat4_mul_vec4_def
        vec4_add_def vec4_scale_def at_def)

section \<open>What a shader receives for a command\<close>

lemma GLint_of_size_small: "n < 2 ^ 31 \<Longrightarrow> GLint_of_size n = int n"
proof -
  assume n: "n < 2 ^ 31"
  then have "int n < 2 ^ 31" by (metis of_nat_less_iff of_nat_numeral of_nat_power)
  then have "int n mod 2 ^ 32 = int n" by simp
  with \<open>int n < 2 ^ 31\<close> show ?thesis by (simp add: GLint_of_size_def)
qed

lemma GLint_of_size_wraps: "GLint_of_size (2 ^ 31) = - (2 ^ 31)"
  by (simp add: GLint_of_size_def)

lemma in_concat_upt:
  "x \<in> set (concat (map f [0..<n])) \<longleftrightarrow> (\<exists>i<n. x \<in> set (f i))"
  by auto

lemma in_bind_directionalLights:
  "SetUniform s name v \<in> set (bind_directionalLights h sh ls) \<longleftrightarrow>
     s = sh \<and> (name, v) \<in> directional_uniforms h ls"
proof -
  have "SetUniform s name v \<in> set (bind_directionalLights h sh ls) \<longleftrightarrow>
     (\<exists>i<length ls. s = sh \<and> (name, v) \<in>
        (case h (ls ! i) of
          Some (DirectionalLight l) \<Rightarrow>
            {(indexed ''directionalLights'' i ''direction'', UVec3 (dl_direction l)),
             (indexed ''directionalLights'' i ''intensity'', dl_intensity l),
             (indexed ''directionalLights'' i ''color'', dl_color l)}
        | _ \<Rightarrow> {}))"
    unfolding bind_directionalLights_def in_concat_upt
    apply (rule ex_cong1)
    subgoal for i
      apply (cases "h (ls ! i)")
       apply simp
      subgoal for c by (cases c) (auto simp: indexed_def Let_def)
      done
    done
  then show ?thesis by (auto simp: directional_uniforms_def)
qed

lemma in_bind_spotLights:
  "SetUniform s name v \<in> set (bind_spotLights h sh ls) \<longleftrightarrow>
     s = sh \<and> (name, v) \<in> spot_uniforms h ls"
proof -
  have "SetUniform s name v \<in> set (bind_spotLights h sh ls) \<longleftrightarrow>
     (\<exists>i<length ls. s = sh \<and> (name, v) \<in>
        (case h (ls ! i) of
          Some (SpotLight l) \<Rightarrow>
            {(indexed ''spotLights'' i ''position'', UVec3 (sl_worldPosition l)),
             (indexed ''spotLights'' i ''intensity'', sl_intensity l),
             (indexed ''spotLights'' i ''color'', sl_color l),
             (indexed ''spotLights'' i ''decay'', sl_lightDecay l)}
        | _ \<Rightarrow> {}))"
    unfolding bind_spotLights_def in_concat_upt
    apply (rule ex_cong1)
    subgoal for i
      apply (cases "h (ls ! i)")
       apply simp
      subgoal for c by (cases c) (auto simp: indexed_def Let_def)
      done
    done
  then show ?thesis by (auto simp: spot_uniforms_def)
qed

lemma in_bind_coneLights:
  "SetUniform s name v \<in> set (bind_coneLights h sh ls) \<longleftrightarrow>
     s = sh \<and> (name, v) \<in> cone_uniforms h ls"
proof -
  have "SetUniform s name v \<in> set (bind_coneLights h sh ls) \<longleftrightarrow>
     (\<exists>i<length ls. s = sh \<and> (name, v) \<in>
        (case h (ls ! i) of
          Some (ConeLight l) \<Rightarrow>
            {(indexed ''coneLights'' i ''position'', UVec3 (cl_worldPosition l)),
             (indexed ''coneLights'' i ''intensity'', cl_intensity l),
             (indexed ''coneLights'' i ''color'', cl_color l),
             (indexed ''coneLights'' i ''direction'', UVec3 (cl_worldDirection l)),
             (indexed ''coneLights'' i ''range'', cl_range l),
             (indexed ''coneLights'' i ''smoothing'', cl_smoothing l),
             (indexed ''coneLights'' i ''decay'', cl_lightDecay l)}
        | _ \<Rightarrow> {}))"
    unfolding bind_coneLights_def in_concat_upt
    apply (rule ex_cong1)
    subgoal for i
      apply (cases "h (ls ! i)")
       apply simp
      subgoal for c by (cases c) (auto simp: indexed_def Let_def)
      done
    done
  then show ?thesis by (auto simp: cone_uniforms_def)
qed

lemma in_bind_lights:
  "SetUniform s name v \<in> set (bind_lights h r sh) \<longleftrightarrow> s = sh \<and> (name, v) \<in> light_uniforms h r"
  unfolding bind_lights_def light_uniforms_def set_append Un_iff
    in_bind_directionalLights in_bind_spotLights in_bind_coneLights
  by auto

lemma transform_no_light: "(''transform'', v) \<notin> light_uniforms h r"
  by (auto simp: light_uniforms_def directional_uniforms_def spot_uniforms_def cone_uniforms_def
        indexed_def split: option.splits component.splits)

lemma uniforms_lit:
  assumes "D = draw_opaque h r VP c k \<or> D = draw_transparent h r VP c k"
    and "kind (material_of k) = DefaultMaterial"
  shows "uniforms D (shader (material_of k)) =
           {(''transform'', UMat4 (localToWorld k)), (''Camera'', UMat4 VP),
            (''cameraPosition'', UVec3 c), (''areaLight'', UVec3 (areaLight r))}
           \<union> light_uniforms h r"
  using assms
  by (auto simp: uniforms_def draw_opaque_def draw_transparent_def Let_def in_bind_lights)

lemma draw_unlit:
  assumes "D = draw_opaque h r VP c k \<or> D = draw_transparent h r VP c k"
    and "kind (material_of k) \<noteq> DefaultMaterial"
  shows "D = [MaterialSetup (material_of k),
              SetUniform (shader (material_of k)) ''transform'' (UMat4 (mat4_mul VP (localToWorld k))),
              MeshDraw (mesh k)]"
  using assms by (auto simp: draw_opaque_def draw_transparent_def Let_def)


text \<open>The calls of a frame with a camera, in terms of what \<open>render\<close> returns.\<close>

lemma render_frame_calls:
  "snd (render_frame (cam, owner) h r) =
     [Viewport 0 0 (fst (windowSize r)) (snd (windowSize r)), ClearColor 0 0 0 0, ClearDepth 1,
      ColorMask True True True True, DepthMask True]
     @ (case postprocessMaterial r of
          None \<Rightarrow> []
        | Some pp \<Rightarrow> [BindFramebuffer GL_FRAMEBUFFER (postprocessFrameBuffer r)])
     @ [Clear_color_depth]
     @ concat (map (draw_opaque h (fst (render_frame (cam, owner) h r))
                      (mat4_mul (getProjectionMatrix cam (windowSize r)) (getViewMatrix cam))
                      (camera_center owner))
                 (opaqueCommands (fst (render_frame (cam, owner) h r))))
     @ draw_sky (fst (render_frame (cam, owner) h r))
         (mat4_mul (getProjectionMatrix cam (windowSize r)) (getViewMatrix cam))
         (camera_center owner) cam
     @ concat (map (draw_transparent h (fst (render_frame (cam, owner) h r))
                      (mat4_mul (getProjectionMatrix cam (windowSize r)) (getViewMatrix cam))
                      (camera_center owner))
                 (transparentCommands (fst (render_frame (cam, owner) h r))))
     @ draw_postprocess (fst (render_frame (cam, owner) h r))"
  by (simp add: render_frame_def Let_def camera_center_def vec3_of_def cong: option.case_cong)

lemma clear_lists_fixed:
  assumes "clear_lists r' = clear_lists r"
  shows "windowSize r' = windowSize r" "areaLight r' = areaLight r"
    "postprocessFrameBuffer r' = postprocessFrameBuffer r"
proof -
  have "windowSize (clear_lists r') = windowSize (clear_lists r)"
    "areaLight (clear_lists r') = areaLight (clear_lists r)"
    "postprocessFrameBuffer (clear_lists r') = postprocessFrameBuffer (clear_lists r)"
    using assms by simp_all
  then show "windowSize r' = windowSize r" "areaLight r' = areaLight r"
    "postprocessFrameBuffer r' = postprocessFrameBuffer r"
    by (simp_all add: clear_lists_def)
qed

lemma render_calls:
  assumes "first_camera h world = Some (cam, owner)"
  shows "calls_of world h r =
     [Viewport 0 0 (fst (windowSize r)) (snd (windowSize r)), ClearColor 0 0 0 0, ClearDepth 1,
      ColorMask True True True True, DepthMask True]
     @ (case postprocessMaterial r of
          None \<Rightarrow> []
        | Some pp \<Rightarrow> [BindFramebuffer GL_FRAMEBUFFER (postprocessFrameBuffer r)])
     @ [Clear_color_depth]
     @ concat (map (draw_opaque (store_after world h r) (renderer_after world h r)
                      (mat4_mul (getProjectionMatrix cam (windowSize r)) (getViewMatrix cam))
                      (camera_center owner))
                 (opaqueCommands (renderer_after world h r)))
     @ draw_sky (renderer_after world h r)
         (mat4_mul (getProjectionMatrix cam (windowSize r)) (getViewMatrix cam))
         (camera_center owner) cam
     @ concat (map (draw_transparent (store_after world h r) (renderer_after world h r)
                      (mat4_mul (getProjectionMatrix cam (windowSize r)) (getViewMatrix cam))
                      (camera_center owner))
                 (transparentCommands (renderer_after world h r)))
     @ draw_postprocess (renderer_after world h r)"
proof -
  obtain c1 r1 h1 where t: "traverse world (None, clear_lists r, h) = (c1, r1, h1)"
    by (cases "traverse world (None, clear_lists r, h)")
  note l = traverse_lists[OF t same_scene_refl]
  have c1: "c1 = Some (cam, owner)" using l assms by simp
  have cl: "clear_lists r1 = clear_lists r" using l by (simp add: clear_lists_fields)
  have calls: "calls_of world h r = snd (render_frame (cam, owner) h1 r1)"
    by (simp add: calls_of_def render_def t c1 split: prod.splits)
  have ra: "renderer_after world h r = fst (render_frame (cam, owner) h1 r1)"
    by (simp add: renderer_after_def render_def t c1 split: prod.splits)
  have sa: "store_after world h r = h1"
    by (simp add: store_after_def render_def t c1 split: prod.splits)
  show ?thesis
    unfolding calls ra sa render_frame_calls[of cam owner h1 r1]
    by (simp add: clear_lists_fixed[OF cl] clear_lists_rest[OF cl] cong: option.case_cong)
qed

text \<open>Every pointer of a light list points, after the traversal, to a light of its kind.\<close>

lemma collected_lights:
  shows "a \<in> set (directionalLights (renderer_after world h r))
           \<Longrightarrow> \<exists>l. store_after world h r a = Some (DirectionalLight l)"
    and "a \<in> set (spotLights (renderer_after world h r))
           \<Longrightarrow> \<exists>l. store_after world h r a = Some (SpotLight l)"
    and "a \<in> set (coneLights (renderer_after world h r))
           \<Longrightarrow> \<exists>l. store_after world h r a = Some (ConeLight l)"
proof -
  note s = render_scene[of h world r]
  show "\<exists>l. store_after world h r a = Some (DirectionalLight l)"
    if "a \<in> set (directionalLights (renderer_after world h r))"
  proof -
    from that obtain e where "getComponent is_DirectionalLight h e = Some a"
      unfolding render_lists in_pointer_lists by blast
    then have "has_kind is_DirectionalLight h a" by (simp add: getComponent_member)
    then have "has_kind is_DirectionalLight (store_after world h r) a"
      using same_scene_has_kind[OF s kind_tests(3)] by simp
    then show ?thesis
      by (auto simp: has_kind_def is_DirectionalLight_def split: option.splits)
  qed
  show "\<exists>l. store_after world h r a = Some (SpotLight l)"
    if "a \<in> set (spotLights (renderer_after world h r))"
  proof -
    from that obtain e where "getComponent is_SpotLight h e = Some a"
      unfolding render_lists in_pointer_lists by blast
    then have "has_kind is_SpotLight h a" by (simp add: getComponent_member)
    then have "has_kind is_SpotLight (store_after world h r) a"
      using same_scene_has_kind[OF s kind_tests(4)] by simp
    then show ?thesis
      by (auto simp: has_kind_def is_SpotLight_def split: option.splits)
  qed
  show "\<exists>l. store_after world h r a = Some (ConeLight l)"
    if "a \<in> set (coneLights (renderer_after world h r))"
  proof -
    from that have "has_kind is_ConeLight h a"
      unfolding render_lists by (auto simp: getAllComponents_def)
    then have "has_kind is_ConeLight (store_after world h r) a"
      using same_scene_has_kind[OF s kind_tests(5)] by simp
    then show ?thesis
      by (auto simp: has_kind_def is_ConeLight_def split: option.splits)
  qed
qed

text \<open>
  Claim C4. When binding a draw command whose material is of the default (lit) kind,
  the shader receives \<open>transform = worldTransform\<close> (the model matrix alone, not MVP)
  and \<open>Camera = VP\<close> separately, plus \<open>cameraPosition\<close>, \<open>areaLight\<close>, and the indexed
  light arrays with their counts; for any other material kind, the shader receives
  \<open>transform = VP * worldTransform\<close> and no lighting uniforms are bound.

  In a frame with a camera, \<open>r'\<close> and \<open>h'\<close> are the renderer and the store that
  \<open>render\<close> returns, \<open>VP\<close> is the camera's projection for the window size times its
  view matrix, and \<open>cameraCenter\<close> is the position of the camera's owner. The calls of
  the frame are the viewport and clear calls, then the calls \<open>draw_opaque\<close> of each
  command of the opaque list, the sky, the calls \<open>draw_transparent\<close> of each command
  of the transparent list, and the post-processing pass. What the material's own
  \<^verbatim>\<open>setup()\<close> binds is behind the call \<open>MaterialSetup\<close>. For a command \<open>k\<close> of either list
  and its calls \<open>D\<close>: with a default material, the uniforms its shader receives are
  exactly the four named ones and those of the lights; with another material, \<open>D\<close> is
  the material's setup, the one uniform \<open>transform = VP * localToWorld\<close>, and the draw.
  No light uniform is called \<open>transform\<close>, so the only transform bound for a default
  material is the model matrix; a count is the length of its list as long as that is
  below \<open>2 ^ 31\<close>; and every pointer of a light list points to a light of its kind, so
  that every light of a list has its fields among the light uniforms.
\<close>

theorem C4_uniforms_by_material_kind:
  fixes world :: "'a::{zero,one,uminus,plus,minus,times,ord} entity list"
  assumes "first_camera h world = Some (cam, owner)"
    and "r' = renderer_after world h r"
    and "h' = store_after world h r"
    and "VP = mat4_mul (getProjectionMatrix cam (windowSize r)) (getViewMatrix cam)"
    and "cameraCenter = camera_center owner"
  shows "calls_of world h r =
           [Viewport 0 0 (fst (windowSize r)) (snd (windowSize r)), ClearColor 0 0 0 0,
            ClearDepth 1, ColorMask True True True True, DepthMask True]
           @ (case postprocessMaterial r of
                None \<Rightarrow> []
              | Some pp \<Rightarrow> [BindFramebuffer GL_FRAMEBUFFER (postprocessFrameBuffer r)])
           @ [Clear_color_depth]
           @ concat (map (draw_opaque h' r' VP cameraCenter) (opaqueCommands r'))
           @ draw_sky r' VP cameraCenter cam
           @ concat (map (draw_transparent h' r' VP cameraCenter) (transparentCommands r'))
           @ draw_postprocess r'
       \<and> (\<forall>k D. (k \<in> set (opaqueCommands r') \<and> D = draw_opaque h' r' VP cameraCenter k)
                \<or> (k \<in> set (transparentCommands r')
                    \<and> D = draw_transparent h' r' VP cameraCenter k) \<longrightarrow>
             (kind (material_of k) = DefaultMaterial \<longrightarrow>
                uniforms D (shader (material_of k)) =
                  {(''transform'', UMat4 (localToWorld k)), (''Camera'', UMat4 VP),
                   (''cameraPosition'', UVec3 cameraCenter), (''areaLight'', UVec3 (areaLight r))}
                  \<union> light_uniforms h' r')
           \<and> (kind (material_of k) \<noteq> DefaultMaterial \<longrightarrow>
                D = [MaterialSetup (material_of k),
                     SetUniform (shader (material_of k)) ''transform''
                       (UMat4 (mat4_mul VP (localToWorld k))),
                     MeshDraw (mesh k)]))
       \<and> (\<forall>v. (''transform'', v) \<notin> light_uniforms h' r')
       \<and> (length (directionalLights r') < 2 ^ 31 \<longrightarrow>
             (''directionalLightCount'', UInt (int (length (directionalLights r'))))
               \<in> light_uniforms h' r')
       \<and> (length (spotLights r') < 2 ^ 31 \<longrightarrow>
             (''spotLightsCount'', UInt (int (length (spotLights r')))) \<in> light_uniforms h' r')
       \<and> (length (coneLights r') < 2 ^ 31 \<longrightarrow>
             (''coneLightsCount'', UInt (int (length (coneLights r')))) \<in> light_uniforms h' r')
       \<and> (\<forall>a\<in>set (directionalLights r'). \<exists>l. h' a = Some (DirectionalLight l))
       \<and> (\<forall>a\<in>set (spotLights r'). \<exists>l. h' a = Some (SpotLight l))
       \<and> (\<forall>a\<in>set (coneLights r'). \<exists>l. h' a = Some (ConeLight l))"
proof -
  have calls: "calls_of world h r =
           [Viewport 0 0 (fst (windowSize r)) (snd (windowSize r)), ClearColor 0 0 0 0,
            ClearDepth 1, ColorMask True True True True, DepthMask True]
           @ (case postprocessMaterial r of
                None \<Rightarrow> []
              | Some pp \<Rightarrow> [BindFramebuffer GL_FRAMEBUFFER (postprocessFrameBuffer r)])
           @ [Clear_color_depth]
           @ concat (map (draw_opaque h' r' VP cameraCenter) (opaqueCommands r'))
           @ draw_sky r' VP cameraCenter cam
           @ concat (map (draw_transparent h' r' VP cameraCenter) (transparentCommands r'))
           @ draw_postprocess r'"
    unfolding assms(2-5) by (rule render_calls[OF assms(1)])
  have al: "areaLight r' = areaLight r"
    unfolding assms(2) by (rule clear_lists_fixed(2)[OF render_lists(6)])
  have lit: "uniforms D (shader (material_of k)) =
                  {(''transform'', UMat4 (localToWorld k)), (''Camera'', UMat4 VP),
                   (''cameraPosition'', UVec3 cameraCenter), (''areaLight'', UVec3 (areaLight r))}
                  \<union> light_uniforms h' r'"
    if "D = draw_opaque h' r' VP cameraCenter k \<or> D = draw_transparent h' r' VP cameraCenter k"
      and "kind (material_of k) = DefaultMaterial" for k D
    using uniforms_lit[OF that] by (simp only: al)
  have unlit: "D = [MaterialSetup (material_of k),
                     SetUniform (shader (material_of k)) ''transform''
                       (UMat4 (mat4_mul VP (localToWorld k))),
                     MeshDraw (mesh k)]"
    if "D = draw_opaque h' r' VP cameraCenter k \<or> D = draw_transparent h' r' VP cameraCenter k"
      and "kind (material_of k) \<noteq> DefaultMaterial" for k D
    using that by (rule draw_unlit)
  have commands: "\<forall>k D. (k \<in> set (opaqueCommands r') \<and> D = draw_opaque h' r' VP cameraCenter k)
                \<or> (k \<in> set (transparentCommands r')
                    \<and> D = draw_transparent h' r' VP cameraCenter k) \<longrightarrow>
             (kind (material_of k) = DefaultMaterial \<longrightarrow>
                uniforms D (shader (material_of k)) =
                  {(''transform'', UMat4 (localToWorld k)), (''Camera'', UMat4 VP),
                   (''cameraPosition'', UVec3 cameraCenter), (''areaLight'', UVec3 (areaLight r))}
                  \<union> light_uniforms h' r')
           \<and> (kind (material_of k) \<noteq> DefaultMaterial \<longrightarrow>
                D = [MaterialSetup (material_of k),
                     SetUniform (shader (material_of k)) ''transform''
                       (UMat4 (mat4_mul VP (localToWorld k))),
                     MeshDraw (mesh k)])"
  proof (intro allI impI conjI)
    fix k D
    assume kd: "(k \<in> set (opaqueCommands r') \<and> D = draw_opaque h' r' VP cameraCenter k)
                \<or> (k \<in> set (transparentCommands r')
                    \<and> D = draw_transparent h' r' VP cameraCenter k)"
    then have d: "D = draw_opaque h' r' VP cameraCenter k
                \<or> D = draw_transparent h' r' VP cameraCenter k"
      by (elim disjE conjE) simp_all
    show "uniforms D (shader (material_of k)) =
                  {(''transform'', UMat4 (localToWorld k)), (''Camera'', UMat4 VP),
                   (''cameraPosition'', UVec3 cameraCenter), (''areaLight'', UVec3 (areaLight r))}
                  \<union> light_uniforms h' r'"
      if "kind (material_of k) = DefaultMaterial"
      using d that by (rule lit)
    show "D = [MaterialSetup (material_of k),
                     SetUniform (shader (material_of k)) ''transform''
                       (UMat4 (mat4_mul VP (localToWorld k))),
                     MeshDraw (mesh k)]"
      if "kind (material_of k) \<noteq> DefaultMaterial"
      using d that by (rule unlit)
  qed
  have tr: "\<forall>v. (''transform'', v) \<notin> light_uniforms h' r'"
    by (simp add: transform_no_light)
  have c1: "length (directionalLights r') < 2 ^ 31 \<longrightarrow>
             (''directionalLightCount'', UInt (int (length (directionalLights r')))) \<in> light_uniforms h' r'"
    using GLint_of_size_small[of "length (directionalLights r')"] by (simp add: light_uniforms_def)
  have c2: "length (spotLights r') < 2 ^ 31 \<longrightarrow>
             (''spotLightsCount'', UInt (int (length (spotLights r')))) \<in> light_uniforms h' r'"
    using GLint_of_size_small[of "length (spotLights r')"] by (simp add: light_uniforms_def)
  have c3: "length (coneLights r') < 2 ^ 31 \<longrightarrow>
             (''coneLightsCount'', UInt (int (length (coneLights r')))) \<in> light_uniforms h' r'"
    using GLint_of_size_small[of "length (coneLights r')"] by (simp add: light_uniforms_def)
  have k1: "\<forall>a\<in>set (directionalLights r'). \<exists>l. h' a = Some (DirectionalLight l)"
    unfolding assms(2,3) using collected_lights(1) by blast
  have k2: "\<forall>a\<in>set (spotLights r'). \<exists>l. h' a = Some (SpotLight l)"
    unfolding assms(2,3) using collected_lights(2) by blast
  have k3: "\<forall>a\<in>set (coneLights r'). \<exists>l. h' a = Some (ConeLight l)"
    unfolding assms(2,3) using collected_lights(3) by blast
  show ?thesis
    by (intro conjI) (rule calls commands tr c1 c2 c3 k1 k2 k3)+
qed

text \<open>The sample scene: what the frame collects, its camera, and the spot light after it.\<close>

lemma scene_opaque:
  "opaqueCommands (renderer_after scene_world scene_store scene_renderer) = [scene_lit_command]"
  by (simp add: render_lists collected_commands_def command_of_def scene_world_def scene_store_def
        getComponent_def has_kind_def is_transparent_def scene_material_def scene_lit_command_def
        at_def mat4_mul_vec4_def vec4_add_def vec4_scale_def vec3_of_def)

lemma scene_transparent:
  "scene_unlit_command
     \<in> set (transparentCommands (renderer_after scene_world scene_store scene_renderer))"
proof -
  have "transparentCommands (renderer_after scene_world scene_store scene_renderer)
          = std_sort (drawn_before (camera_forward (scene_world ! 0)) (camera_center (scene_world ! 0)))
              (filter is_transparent (collected_commands scene_store scene_world))"
    by (simp add: render_lists scene_first_camera)
  then show ?thesis
    by (simp add: collected_commands_def command_of_def scene_world_def scene_store_def
          getComponent_def has_kind_def is_transparent_def scene_material_def std_sort_def
          drawn_before_def camera_forward_def camera_center_def at_def dot_def vec3_sub_def
          mat4_mul_vec4_def vec4_add_def vec4_scale_def vec3_of_def scene_unlit_command_def)
qed

lemma scene_view:
  "mat4_mul (getProjectionMatrix scene_camera (windowSize scene_renderer)) (getViewMatrix scene_camera)
     = at 0 0 1"
  "camera_center (scene_world ! 0) = Vec3 0 0 0"
  "mat4_mul (at 0 0 1) (at 0 0 (- 5)) = at 0 0 (- 4)"
  by (simp_all add: scene_camera_def mat4_identity_def mat4_mul_def camera_center_def
        scene_world_def at_def mat4_mul_vec4_def vec4_add_def vec4_scale_def vec3_of_def)

lemma scene_spot_after:
  "store_after scene_world scene_store scene_renderer 6
     = Some (SpotLight (scene_spot\<lparr>sl_worldPosition := Vec3 0 0 (- 2)\<rparr>))"
proof -
  have e: "scene_world ! 2 \<in> set scene_world" by (simp add: scene_world_def)
  have g: "getComponent is_SpotLight scene_store (scene_world ! 2) = Some 6"
    by (simp add: scene_world_def scene_store_def getComponent_def has_kind_def)
  have s: "scene_store 6 = Some (SpotLight scene_spot)" by (simp add: scene_store_def)
  from traverse_spot[OF scene_distinct e g, of None "clear_lists scene_renderer"] s
  show ?thesis
    by (simp add: render_store scene_world_def at_def mat4_mul_vec4_def vec4_add_def
          vec4_scale_def vec3_of_def)
qed

lemma scene_spot_uniform:
  "(''spotLights[0].position'', UVec3 (Vec3 0 0 (- 2)))
     \<in> light_uniforms (store_after scene_world scene_store scene_renderer)
         (renderer_after scene_world scene_store scene_renderer)"
  by (simp add: light_uniforms_def spot_uniforms_def scene_lights scene_spot_after indexed_def
        string_of_nat.simps lessThan_Suc)

theorem C4_witness:
  "first_camera scene_store scene_world = Some (scene_camera, scene_world ! 0)
   \<and> at 0 0 1 = mat4_mul (getProjectionMatrix scene_camera (windowSize scene_renderer))
                  (getViewMatrix scene_camera)
   \<and> Vec3 0 0 0 = camera_center (scene_world ! 0)
   \<and> scene_lit_command \<in> set (opaqueCommands (renderer_after scene_world scene_store scene_renderer))
   \<and> kind (material_of scene_lit_command) = DefaultMaterial
   \<and> uniforms (draw_opaque (store_after scene_world scene_store scene_renderer) (renderer_after scene_world scene_store scene_renderer) (at 0 0 1) (Vec3 0 0 0) scene_lit_command) 7
       = {(''transform'', UMat4 (at 1 2 (- 3))), (''Camera'', UMat4 (at 0 0 1)),
          (''cameraPosition'', UVec3 (Vec3 0 0 0)), (''areaLight'', UVec3 (Vec3 1 1 1))}
         \<union> light_uniforms (store_after scene_world scene_store scene_renderer) (renderer_after scene_world scene_store scene_renderer)
   \<and> (''spotLights[0].position'', UVec3 (Vec3 0 0 (- 2))) \<in> light_uniforms (store_after scene_world scene_store scene_renderer) (renderer_after scene_world scene_store scene_renderer)
   \<and> (''coneLightsCount'', UInt 2) \<in> light_uniforms (store_after scene_world scene_store scene_renderer) (renderer_after scene_world scene_store scene_renderer)
   \<and> spotLights (renderer_after scene_world scene_store scene_renderer) = [6]
   \<and> (\<exists>l. (store_after scene_world scene_store scene_renderer) 6 = Some (SpotLight l))
   \<and> scene_unlit_command \<in> set (transparentCommands (renderer_after scene_world scene_store scene_renderer))
   \<and> kind (material_of scene_unlit_command) = OtherMaterial
   \<and> draw_transparent (store_after scene_world scene_store scene_renderer) (renderer_after scene_world scene_store scene_renderer) (at 0 0 1) (Vec3 0 0 0) scene_unlit_command
       = [MaterialSetup (scene_material\<lparr>transparent := True, kind := OtherMaterial\<rparr>),
          SetUniform 7 ''transform'' (UMat4 (at 0 0 (- 4))),
          MeshDraw 40]"
proof -
  note t = C4_uniforms_by_material_kind
             [where r = scene_renderer,
              OF scene_first_camera refl refl scene_view(1)[symmetric] scene_view(2)[symmetric]]
  note c = t[THEN conjunct2, THEN conjunct1, rule_format]
  have k: "kind (material_of scene_lit_command) = DefaultMaterial"
    "shader (material_of scene_lit_command) = 7"
    "localToWorld scene_lit_command = at 1 2 (- 3)"
    "kind (material_of scene_unlit_command) = OtherMaterial"
    "kind (material_of scene_unlit_command) \<noteq> DefaultMaterial"
    "shader (material_of scene_unlit_command) = 7"
    "material_of scene_unlit_command = scene_material\<lparr>transparent := True, kind := OtherMaterial\<rparr>"
    "shader (scene_material\<lparr>transparent := True, kind := OtherMaterial\<rparr>) = 7"
    "mesh scene_unlit_command = 40"
    "localToWorld scene_unlit_command = at 0 0 (- 5)"
    "areaLight scene_renderer = Vec3 1 1 1"
    by (simp_all add: scene_lit_command_def scene_unlit_command_def scene_material_def
          scene_renderer_def)
  have o: "scene_lit_command \<in> set (opaqueCommands (renderer_after scene_world scene_store scene_renderer))"
    by (simp add: scene_opaque)
  have lit: "uniforms (draw_opaque (store_after scene_world scene_store scene_renderer) (renderer_after scene_world scene_store scene_renderer) (at 0 0 1) (Vec3 0 0 0) scene_lit_command) 7
       = {(''transform'', UMat4 (at 1 2 (- 3))), (''Camera'', UMat4 (at 0 0 1)),
          (''cameraPosition'', UVec3 (Vec3 0 0 0)), (''areaLight'', UVec3 (Vec3 1 1 1))}
         \<union> light_uniforms (store_after scene_world scene_store scene_renderer) (renderer_after scene_world scene_store scene_renderer)"
    using c[OF disjI1, OF conjI, OF o refl, THEN conjunct1, THEN mp, OF k(1)]
    by (simp only: k)
  have unlit: "draw_transparent (store_after scene_world scene_store scene_renderer) (renderer_after scene_world scene_store scene_renderer) (at 0 0 1) (Vec3 0 0 0) scene_unlit_command
       = [MaterialSetup (scene_material\<lparr>transparent := True, kind := OtherMaterial\<rparr>),
          SetUniform 7 ''transform'' (UMat4 (at 0 0 (- 4))),
          MeshDraw 40]"
    using c[OF disjI2, OF conjI, OF scene_transparent refl, THEN conjunct2, THEN mp, OF k(5)]
    by (simp only: k scene_view(3))
  have n: "(''coneLightsCount'', UInt 2) \<in> light_uniforms (store_after scene_world scene_store scene_renderer) (renderer_after scene_world scene_store scene_renderer)"
    using t by (simp add: scene_lights)
  have s: "\<exists>l. (store_after scene_world scene_store scene_renderer) 6 = Some (SpotLight l)"
    using t by (simp add: scene_lights)
  show ?thesis
    by (intro conjI)
       (rule scene_first_camera scene_view(1)[symmetric] scene_view(2)[symmetric] o k(1) lit
          scene_spot_uniform n scene_lights(2) s scene_transparent k(4) unlit)+
qed

section \<open>Initialization\<close>

lemma init_postprocess_result:
  "init_postprocess new_Material shaderFile n wsize r = (r', calls) \<Longrightarrow>
     filter is_creation calls =
       [GenFramebuffers n, EmptyTexture GL_RGBA8 wsize (n + 1),
        EmptyTexture GL_DEPTH_COMPONENT24 wsize (n + 2), GenVertexArrays (n + 3),
        NewSampler (n + 4), NewShaderProgram (n + 5), NewMaterial TexturedMaterial]
     \<and> attachments b calls = [(n, GL_COLOR_ATTACHMENT0, n + 1), (n, GL_DEPTH_ATTACHMENT, n + 2)]
     \<and> postprocessFrameBuffer r' = n \<and> colorTarget r' = n + 1 \<and> depthTarget r' = n + 2
     \<and> postProcessVertexArray r' = n + 3
     \<and> (\<exists>pp. postprocessMaterial r' = Some pp \<and> kind pp = TexturedMaterial
            \<and> texture pp = n + 1 \<and> shader pp = n + 5 \<and> sampler pp = n + 4)
     \<and> skySphere r' = skySphere r \<and> skyMaterial r' = skyMaterial r
     \<and> windowSize r' = windowSize r \<and> areaLight r' = areaLight r"
  by (auto simp: init_postprocess_def Let_def is_creation_def)

lemma init_sky_result:
  "init_sky new_Material ps0 skyTextureFile n r = (r', calls) \<Longrightarrow>
     filter is_creation calls =
       [MeshSphere 16 16 n, NewShaderProgram (n + 1), LoadImage skyTextureFile False (n + 2),
        NewSampler (n + 3), NewMaterial DefaultMaterial]
     \<and> attachments b calls = []
     \<and> skySphere r' = n
     \<and> (\<exists>sky. skyMaterial r' = Some sky \<and> kind sky = DefaultMaterial
            \<and> shader sky = n + 1 \<and> texture sky = n + 2
            \<and> sampler sky = n + 3 \<and> isSkybox sky \<and> \<not> transparent sky)
     \<and> postprocessFrameBuffer r' = postprocessFrameBuffer r
     \<and> postProcessVertexArray r' = postProcessVertexArray r
     \<and> colorTarget r' = colorTarget r \<and> depthTarget r' = depthTarget r
     \<and> postprocessMaterial r' = postprocessMaterial r
     \<and> windowSize r' = windowSize r \<and> areaLight r' = areaLight r"
  by (auto simp: init_sky_def Let_def is_creation_def)

text \<open>
  Claim C9. \<open>initialize\<close> allocates resources only for features whose configuration
  key is present: if only the postprocess key is configured, an RGBA8 color target
  and a 24-bit depth target sized to the output size are created and attached to one
  framebuffer while no sky resources (sphere mesh, sky shader, sky material) are
  allocated; if only the sky key is configured, the sky resources are created and no
  framebuffer or offscreen targets are allocated.

  The area light is absent or a \<open>vec3\<close>, and the keys present hold strings. With only
  \<open>postprocess\<close>, the objects created are one framebuffer, the two textures of the
  output size, a vertex array, a sampler, a shader program and a textured material;
  the two textures are attached to that framebuffer; and the sky fields of the
  renderer are as before. With only \<open>sky\<close>, the objects created are the sphere, a
  shader program, the image texture, a sampler and a default material; nothing is
  attached; and the post-processing fields are as before. With neither, no call is
  issued.
\<close>

theorem C9_initialize_per_feature:
  fixes r :: "'a::one renderer"
  assumes "value_vec3 config ''areaLight'' (Vec3 1 1 1) = Inr light"
  shows "(config ''sky'' = None \<and> config ''postprocess'' = Some (JString shaderFile) \<longrightarrow>
           (\<exists>r' calls. initialize new_Material new_PipelineState n wsize config r = Inr (r', calls)
              \<and> filter is_creation calls =
                   [GenFramebuffers n, EmptyTexture GL_RGBA8 wsize (n + 1),
                    EmptyTexture GL_DEPTH_COMPONENT24 wsize (n + 2), GenVertexArrays (n + 3),
                    NewSampler (n + 4), NewShaderProgram (n + 5), NewMaterial TexturedMaterial]
              \<and> attachments 0 calls
                   = [(n, GL_COLOR_ATTACHMENT0, n + 1), (n, GL_DEPTH_ATTACHMENT, n + 2)]
              \<and> postprocessFrameBuffer r' = n \<and> colorTarget r' = n + 1 \<and> depthTarget r' = n + 2
              \<and> (\<exists>pp. postprocessMaterial r' = Some pp \<and> kind pp = TexturedMaterial
                     \<and> texture pp = n + 1)
              \<and> skySphere r' = skySphere r \<and> skyMaterial r' = skyMaterial r
              \<and> windowSize r' = wsize \<and> areaLight r' = light))
       \<and> (config ''sky'' = Some (JString skyTextureFile) \<and> config ''postprocess'' = None \<longrightarrow>
           (\<exists>r' calls. initialize new_Material new_PipelineState n wsize config r = Inr (r', calls)
              \<and> filter is_creation calls =
                   [MeshSphere 16 16 n, NewShaderProgram (n + 1),
                    LoadImage skyTextureFile False (n + 2), NewSampler (n + 3),
                    NewMaterial DefaultMaterial]
              \<and> attachments 0 calls = []
              \<and> skySphere r' = n
              \<and> (\<exists>sky. skyMaterial r' = Some sky \<and> kind sky = DefaultMaterial
                     \<and> shader sky = n + 1 \<and> texture sky = n + 2)
              \<and> postprocessFrameBuffer r' = postprocessFrameBuffer r
              \<and> postProcessVertexArray r' = postProcessVertexArray r
              \<and> colorTarget r' = colorTarget r \<and> depthTarget r' = depthTarget r
              \<and> postprocessMaterial r' = postprocessMaterial r
              \<and> windowSize r' = wsize \<and> areaLight r' = light))
       \<and> (config ''sky'' = None \<and> config ''postprocess'' = None \<longrightarrow>
            initialize new_Material new_PipelineState n wsize config r
              = Inr (r\<lparr>windowSize := wsize, areaLight := light\<rparr>, []))"
proof (intro conjI impI)
  let ?r1 = "r\<lparr>windowSize := wsize, areaLight := light\<rparr>"
  {
    assume c: "config ''sky'' = None \<and> config ''postprocess'' = Some (JString shaderFile)"
    obtain r' calls where p: "init_postprocess new_Material shaderFile n wsize ?r1 = (r', calls)"
      by (cases "init_postprocess new_Material shaderFile n wsize ?r1")
    have i: "initialize new_Material new_PipelineState n wsize config r = Inr (r', calls)"
      using assms c p by (simp add: initialize_def contains_def value_string_def)
    from init_postprocess_result[OF p, of 0] i
    show "\<exists>r' calls. initialize new_Material new_PipelineState n wsize config r = Inr (r', calls)
              \<and> filter is_creation calls =
                   [GenFramebuffers n, EmptyTexture GL_RGBA8 wsize (n + 1),
                    EmptyTexture GL_DEPTH_COMPONENT24 wsize (n + 2), GenVertexArrays (n + 3),
                    NewSampler (n + 4), NewShaderProgram (n + 5), NewMaterial TexturedMaterial]
              \<and> attachments 0 calls
                   = [(n, GL_COLOR_ATTACHMENT0, n + 1), (n, GL_DEPTH_ATTACHMENT, n + 2)]
              \<and> postprocessFrameBuffer r' = n \<and> colorTarget r' = n + 1 \<and> depthTarget r' = n + 2
              \<and> (\<exists>pp. postprocessMaterial r' = Some pp \<and> kind pp = TexturedMaterial
                     \<and> texture pp = n + 1)
              \<and> skySphere r' = skySphere r \<and> skyMaterial r' = skyMaterial r
              \<and> windowSize r' = wsize \<and> areaLight r' = light"
      by auto
  }
  {
    assume c: "config ''sky'' = Some (JString skyTextureFile) \<and> config ''postprocess'' = None"
    obtain r' calls where p: "init_sky new_Material new_PipelineState skyTextureFile n ?r1 = (r', calls)"
      by (cases "init_sky new_Material new_PipelineState skyTextureFile n ?r1")
    have i: "initialize new_Material new_PipelineState n wsize config r = Inr (r', calls)"
      using assms c p by (simp add: initialize_def contains_def value_string_def)
    from init_sky_result[OF p, of 0] i
    show "\<exists>r' calls. initialize new_Material new_PipelineState n wsize config r = Inr (r', calls)
              \<and> filter is_creation calls =
                   [MeshSphere 16 16 n, NewShaderProgram (n + 1),
                    LoadImage skyTextureFile False (n + 2), NewSampler (n + 3),
                    NewMaterial DefaultMaterial]
              \<and> attachments 0 calls = []
              \<and> skySphere r' = n
              \<and> (\<exists>sky. skyMaterial r' = Some sky \<and> kind sky = DefaultMaterial
                     \<and> shader sky = n + 1 \<and> texture sky = n + 2)
              \<and> postprocessFrameBuffer r' = postprocessFrameBuffer r
              \<and> postProcessVertexArray r' = postProcessVertexArray r
              \<and> colorTarget r' = colorTarget r \<and> depthTarget r' = depthTarget r
              \<and> postprocessMaterial r' = postprocessMaterial r
              \<and> windowSize r' = wsize \<and> areaLight r' = light"
      by auto
  }
  {
    assume "config ''sky'' = None \<and> config ''postprocess'' = None"
    with assms show "initialize new_Material new_PipelineState n wsize config r = Inr (?r1, [])"
      by (simp add: initialize_def contains_def)
  }
qed

lemma config_values:
  "value_vec3 config_postprocess ''areaLight'' (Vec3 1 1 1) = Inr (Vec3 1 1 1)"
  "config_postprocess ''sky'' = None"
  "config_postprocess ''postprocess'' = Some (JString ''assets/shaders/vignette.frag'')"
  "value_vec3 config_sky ''areaLight'' (Vec3 1 1 1) = Inr (Vec3 1 1 1)"
  "config_sky ''sky'' = Some (JString ''assets/textures/sky.jpg'')"
  "config_sky ''postprocess'' = None"
  by (simp_all add: config_postprocess_def config_sky_def value_vec3_def)

theorem C9_witness:
  "value_vec3 config_postprocess ''areaLight'' (Vec3 1 1 1) = Inr (Vec3 1 1 1)
   \<and> config_postprocess ''sky'' = None
   \<and> config_postprocess ''postprocess'' = Some (JString ''assets/shaders/vignette.frag'')
   \<and> (\<exists>r' calls.
         initialize scene_new_Material (pipelineState scene_material) 1 (800, 600)
           config_postprocess scene_renderer = Inr (r', calls)
         \<and> filter is_creation calls =
              [GenFramebuffers 1, EmptyTexture GL_RGBA8 (800, 600) 2,
               EmptyTexture GL_DEPTH_COMPONENT24 (800, 600) 3, GenVertexArrays 4,
               NewSampler 5, NewShaderProgram 6, NewMaterial TexturedMaterial]
         \<and> attachments 0 calls = [(1, GL_COLOR_ATTACHMENT0, 2), (1, GL_DEPTH_ATTACHMENT, 3)]
         \<and> skySphere r' = skySphere scene_renderer \<and> skyMaterial r' = skyMaterial scene_renderer)
   \<and> value_vec3 config_sky ''areaLight'' (Vec3 1 1 1) = Inr (Vec3 1 1 1)
   \<and> config_sky ''sky'' = Some (JString ''assets/textures/sky.jpg'')
   \<and> config_sky ''postprocess'' = None
   \<and> (\<exists>r' calls.
         initialize scene_new_Material (pipelineState scene_material) 1 (800, 600)
           config_sky scene_renderer = Inr (r', calls)
         \<and> filter is_creation calls =
              [MeshSphere 16 16 1, NewShaderProgram 2,
               LoadImage ''assets/textures/sky.jpg'' False 3, NewSampler 4,
               NewMaterial DefaultMaterial]
         \<and> attachments 0 calls = []
         \<and> colorTarget r' = colorTarget scene_renderer
         \<and> postprocessMaterial r' = postprocessMaterial scene_renderer)"
proof -
  note pp = C9_initialize_per_feature
      [OF config_values(1), where shaderFile = "''assets/shaders/vignette.frag''"
         and new_Material = scene_new_Material and new_PipelineState = "pipelineState scene_material"
         and n = 1 and wsize = "(800, 600)" and r = scene_renderer]
  note sky = C9_initialize_per_feature
      [OF config_values(4), where skyTextureFile = "''assets/textures/sky.jpg''"
         and new_Material = scene_new_Material and new_PipelineState = "pipelineState scene_material"
         and n = 1 and wsize = "(800, 600)" and r = scene_renderer]
  from pp config_values(2,3) obtain r1 calls1 where 1:
    "initialize scene_new_Material (pipelineState scene_material) 1 (800, 600)
       config_postprocess scene_renderer = Inr (r1, calls1)"
    "filter is_creation calls1 =
       [GenFramebuffers 1, EmptyTexture GL_RGBA8 (800, 600) 2,
        EmptyTexture GL_DEPTH_COMPONENT24 (800, 600) 3, GenVertexArrays 4,
        NewSampler 5, NewShaderProgram 6, NewMaterial TexturedMaterial]"
    "attachments 0 calls1 = [(1, GL_COLOR_ATTACHMENT0, 2), (1, GL_DEPTH_ATTACHMENT, 3)]"
    "skySphere r1 = skySphere scene_renderer" "skyMaterial r1 = skyMaterial scene_renderer"
    by auto
  from sky config_values(5,6) obtain r2 calls2 where 2:
    "initialize scene_new_Material (pipelineState scene_material) 1 (800, 600)
       config_sky scene_renderer = Inr (r2, calls2)"
    "filter is_creation calls2 =
       [MeshSphere 16 16 1, NewShaderProgram 2,
        LoadImage ''assets/textures/sky.jpg'' False 3, NewSampler 4,
        NewMaterial DefaultMaterial]"
    "attachments 0 calls2 = []"
    "colorTarget r2 = colorTarget scene_renderer"
    "postprocessMaterial r2 = postprocessMaterial scene_renderer"
    by auto
  from 1 2 config_values show ?thesis by blast
qed

end
